theory Spec2Isabelle
  imports Complex_Main "HOL-Library.Sublist" "HOL-Library.AList"
begin

section \<open>Python values and the operations the handlers apply to them\<close>

text \<open>
  The proxy (\<^verbatim>\<open>888/app.py\<close>) handles whatever \<^verbatim>\<open>response.json()\<close> and
  \<^verbatim>\<open>request.json()\<close> return: \<^verbatim>\<open>None\<close>, booleans, numbers, strings, lists and
  dictionaries. A dictionary is an association list in insertion order. Numbers are only
  ever tested for being zero, so one constructor stands for \<^verbatim>\<open>int\<close> and \<^verbatim>\<open>float\<close>.
\<close>

datatype json =
    JNull
  | JBool bool
  | JNum int
  | JStr string
  | JArr "json list"
  | JObj "(string \<times> json) list"

text \<open>The exceptions the modelled code can raise; each is a value here.\<close>

datatype py_exn =
    TypeError
  | KeyError
  | IndexError
  | AttributeError
  | ValueError
  | JSONDecodeError
  | RequestError
  | HTTPStatusError
  | OtherError

text \<open>Sequencing of computations that may raise: the first exception wins.\<close>

definition bind_exn :: "py_exn + 'a \<Rightarrow> ('a \<Rightarrow> py_exn + 'b) \<Rightarrow> py_exn + 'b" where
  "bind_exn m f = (case m of Inl e \<Rightarrow> Inl e | Inr x \<Rightarrow> f x)"

text \<open>\<^verbatim>\<open>bool(x)\<close>, as \<^verbatim>\<open>if x\<close> and \<^verbatim>\<open>x and y\<close> and \<^verbatim>\<open>x or y\<close> test it.\<close>

fun truthy :: "json \<Rightarrow> bool" where
  "truthy JNull = False"
| "truthy (JBool b) = b"
| "truthy (JNum n) = (n \<noteq> 0)"
| "truthy (JStr s) = (s \<noteq> [])"
| "truthy (JArr xs) = (xs \<noteq> [])"
| "truthy (JObj kvs) = (kvs \<noteq> [])"

text \<open>
  \<^verbatim>\<open>key in x\<close> for a string \<^verbatim>\<open>key\<close>: a key test on a dictionary, a membership test
  on a list, a substring test on a string, and a \<^verbatim>\<open>TypeError\<close> on anything else.
\<close>

fun py_in :: "string \<Rightarrow> json \<Rightarrow> py_exn + bool" where
  "py_in key (JObj kvs) = Inr (map_of kvs key \<noteq> None)"
| "py_in key (JArr xs) = Inr (List.member xs (JStr key))"
| "py_in key (JStr s) = Inr (sublist key s)"
| "py_in key _ = Inl TypeError"

text \<open>\<^verbatim>\<open>x[key]\<close> for a string \<^verbatim>\<open>key\<close>: only a dictionary accepts it.\<close>

fun py_getitem :: "json \<Rightarrow> string \<Rightarrow> py_exn + json" where
  "py_getitem (JObj kvs) key = (case map_of kvs key of None \<Rightarrow> Inl KeyError | Some v \<Rightarrow> Inr v)"
| "py_getitem _ key = Inl TypeError"

text \<open>
  \<^verbatim>\<open>x[0]\<close>: the first element of a list, the first character of a string, a
  \<^verbatim>\<open>KeyError\<close> on a dictionary (whose keys are strings), a \<^verbatim>\<open>TypeError\<close> otherwise.
\<close>

fun py_first :: "json \<Rightarrow> py_exn + json" where
  "py_first (JArr []) = Inl IndexError"
| "py_first (JArr (x # xs)) = Inr x"
| "py_first (JStr []) = Inl IndexError"
| "py_first (JStr (c # cs)) = Inr (JStr [c])"
| "py_first (JObj kvs) = Inl KeyError"
| "py_first _ = Inl TypeError"

text \<open>\<^verbatim>\<open>x.get(key, default)\<close>: a method of dictionaries only.\<close>

fun py_get :: "json \<Rightarrow> string \<Rightarrow> json \<Rightarrow> py_exn + json" where
  "py_get (JObj kvs) key dflt = Inr (case map_of kvs key of None \<Rightarrow> dflt | Some v \<Rightarrow> v)"
| "py_get _ key dflt = Inl AttributeError"

text \<open>\<^verbatim>\<open>len(x)\<close>: defined on strings, lists and dictionaries.\<close>

fun py_len :: "json \<Rightarrow> py_exn + nat" where
  "py_len (JStr s) = Inr (length s)"
| "py_len (JArr xs) = Inr (length xs)"
| "py_len (JObj kvs) = Inr (length kvs)"
| "py_len _ = Inl TypeError"

text \<open>
  \<^verbatim>\<open>max(xs, key=f)\<close> on a non-empty list, unfolded into its loop: the running maximum
  is replaced only by a strictly greater element.
\<close>

fun py_max_by :: "('a \<Rightarrow> nat) \<Rightarrow> 'a \<Rightarrow> 'a list \<Rightarrow> 'a" where
  "py_max_by f best [] = best"
| "py_max_by f best (x # xs) = py_max_by f (if f best < f x then x else best) xs"

section \<open>Arbitration among the upstream results\<close>

text \<open>An entry of \<^verbatim>\<open>valid_responses\<close>.\<close>

record candidate =
  result :: json
  content :: json
  token_count :: nat

text \<open>
  The body of both collection loops of \<^verbatim>\<open>chat_completions_proxy\<close> and
  \<^verbatim>\<open>generate_fake_stream_response\<close>, for one result \<open>r\<close> of
  \<^verbatim>\<open>send_single_request\<close> (\<^verbatim>\<open>None\<close>, here \<open>JNull\<close>, when the call failed): the
  candidate to append, if any, or the exception raised.
\<close>

definition valid_candidate :: "int \<Rightarrow> json \<Rightarrow> py_exn + candidate option" where
  "valid_candidate min_response_length r =
     (if \<not> truthy r then Inr None
      else bind_exn (py_in ''choices'' r) (\<lambda>has_choices.
        if \<not> has_choices then Inr None
        else bind_exn (py_getitem r ''choices'') (\<lambda>choices.
          if \<not> truthy choices then Inr None
          else bind_exn (py_first choices) (\<lambda>choice.
            bind_exn (py_get choice ''message'' (JObj [])) (\<lambda>message.
            bind_exn (py_get message ''content'' (JStr [])) (\<lambda>message_content.
            bind_exn (py_len message_content) (\<lambda>n.
              if min_response_length \<le> int n
              then Inr (Some \<lparr>result = r, content = message_content, token_count = n\<rparr>)
              else Inr None)))))))"

text \<open>
  The first loop, \<^verbatim>\<open>for future in asyncio.as_completed(tasks)\<close>, over the results in the
  order they arrive. It only catches \<^verbatim>\<open>CancelledError\<close>, so any other exception leaves
  the loop.
\<close>

fun collect_valid :: "int \<Rightarrow> json list \<Rightarrow> candidate list \<Rightarrow> py_exn + candidate list" where
  "collect_valid m [] valid_responses = Inr valid_responses"
| "collect_valid m (r # rs) valid_responses =
     bind_exn (valid_candidate m r) (\<lambda>c.
       collect_valid m rs (case c of None \<Rightarrow> valid_responses | Some v \<Rightarrow> valid_responses @ [v]))"

text \<open>
  The second loop, \<^verbatim>\<open>for task in done\<close>, whose body is wrapped in
  \<^verbatim>\<open>except Exception\<close>: a result that raises is logged and skipped.
\<close>

fun collect_done :: "int \<Rightarrow> json list \<Rightarrow> candidate list \<Rightarrow> candidate list" where
  "collect_done m [] valid_responses = valid_responses"
| "collect_done m (r # rs) valid_responses =
     collect_done m rs
       (case valid_candidate m r of Inr (Some v) \<Rightarrow> valid_responses @ [v] | _ \<Rightarrow> valid_responses)"

text \<open>
  One dispatched call: its credential, the time it completes (in seconds after dispatch)
  and what \<^verbatim>\<open>send_single_request\<close> returns then.
\<close>

record task =
  task_key :: string
  finish :: nat
  outcome :: json

text \<open>
  \<^verbatim>\<open>asyncio.as_completed\<close> yields the tasks by completion time; tasks completing at the
  same instant are taken in launch order.
\<close>

definition as_completed :: "task list \<Rightarrow> task list" where
  "as_completed tasks = sort_key finish tasks"

text \<open>\<^verbatim>\<open>task.done()\<close> at time \<open>now\<close>.\<close>

definition done_at :: "nat \<Rightarrow> task \<Rightarrow> bool" where
  "done_at now t = (finish t \<le> now)"

text \<open>What one arbitration leaves behind.\<close>

record arbitration =
  best_response :: "candidate option"
  cancelled :: "task list"
  decided_at :: nat

text \<open>
  The arbitration both handlers run once the tasks are created (the two copies differ
  only in where they read \<^verbatim>\<open>min_response_length\<close>). Awaiting every future of
  \<^verbatim>\<open>as_completed\<close> advances the clock to the last completion; then the tasks that are
  not done are given \<^verbatim>\<open>asyncio.wait(remaining_tasks, timeout=15)\<close>, and those still
  pending after it are cancelled. \<^verbatim>\<open>done\<close> is a set in the source; it is walked in
  launch order here.
\<close>

definition arbitrate :: "int \<Rightarrow> task list \<Rightarrow> py_exn + arbitration" where
  "arbitrate min_response_length tasks =
     bind_exn (collect_valid min_response_length (map outcome (as_completed tasks)) [])
       (\<lambda>valid_responses.
          let now = fold max (map finish tasks) 0;
              remaining_tasks = filter (\<lambda>t. \<not> done_at now t) tasks;
              waited = (valid_responses \<noteq> [] \<and> remaining_tasks \<noteq> []);
              done = (if waited then filter (done_at (now + 15)) remaining_tasks else []);
              pending =
                (if waited then filter (\<lambda>t. \<not> done_at (now + 15) t) remaining_tasks else []);
              valid_responses' = collect_done min_response_length (map outcome done) valid_responses
          in Inr \<lparr>best_response =
                    (case valid_responses' of
                       [] \<Rightarrow> None
                     | v # vs \<Rightarrow> Some (py_max_by token_count v vs)),
                  cancelled = pending,
                  decided_at =
                    (if \<not> waited then now
                     else if pending = [] then fold max (map finish done) now
                     else now + 15)\<rparr>)"

section \<open>The stream emitter\<close>

text \<open>
  An event of the stream: \<open>Data j\<close> is the line \<^verbatim>\<open>data: \<close> followed by
  \<^verbatim>\<open>json.dumps(j)\<close> and a blank line, \<open>Done\<close> is the line \<^verbatim>\<open>data: [DONE]\<close>.
\<close>

datatype event = Data json | Done

text \<open>\<^verbatim>\<open>x[i:j]\<close> for \<open>0 \<le> i \<le> j\<close>: strings and lists can be sliced, a dictionary cannot.\<close>

fun py_slice :: "json \<Rightarrow> nat \<Rightarrow> nat \<Rightarrow> py_exn + json" where
  "py_slice (JStr s) i j = Inr (JStr (take (j - i) (drop i s)))"
| "py_slice (JArr xs) i j = Inr (JArr (take (j - i) (drop i xs)))"
| "py_slice _ i j = Inl TypeError"

text \<open>\<^verbatim>\<open>range(i, n, step)\<close> for a positive step.\<close>

function range_step :: "nat \<Rightarrow> nat \<Rightarrow> nat \<Rightarrow> nat list" where
  "range_step i n step = (if step = 0 \<or> n \<le> i then [] else i # range_step (i + step) n step)"
  by pat_completeness auto
termination
  by (relation "measure (\<lambda>(i, n, step). n - i)") auto

declare range_step.simps [simp del]

definition chunk_data :: "json \<Rightarrow> json \<Rightarrow> json \<Rightarrow> json \<Rightarrow> json" where
  "chunk_data response_id created_time model_name chunk =
     JObj [(''id'', response_id), (''object'', JStr ''chat.completion.chunk''),
           (''created'', created_time), (''model'', model_name),
           (''choices'', JArr [JObj [(''index'', JNum 0),
                                     (''delta'', JObj [(''content'', chunk)]),
                                     (''finish_reason'', JNull)]])]"

definition final_data :: "json \<Rightarrow> json \<Rightarrow> json \<Rightarrow> json" where
  "final_data response_id created_time model_name =
     JObj [(''id'', response_id), (''object'', JStr ''chat.completion.chunk''),
           (''created'', created_time), (''model'', model_name),
           (''choices'', JArr [JObj [(''index'', JNum 0),
                                     (''delta'', JObj []),
                                     (''finish_reason'', JStr ''stop'')]])]"

text \<open>
  The \<^verbatim>\<open>for i in range(0, len(content), chunk_size)\<close> loop of
  \<^verbatim>\<open>generate_stream\<close>: the events yielded, and the exception that ended the
  generator, if one did.
\<close>

fun emit_chunks ::
  "json \<Rightarrow> json \<Rightarrow> json \<Rightarrow> json \<Rightarrow> nat \<Rightarrow> nat list \<Rightarrow> event list \<times> py_exn option" where
  "emit_chunks rid created model cont chunk_size [] = ([], None)"
| "emit_chunks rid created model cont chunk_size (i # is) =
     (case py_slice cont i (i + chunk_size) of
        Inl e \<Rightarrow> ([], Some e)
      | Inr chunk \<Rightarrow>
          (case emit_chunks rid created model cont chunk_size is of
             (evs, err) \<Rightarrow> (Data (chunk_data rid created model chunk) # evs, err)))"

definition generate_stream :: "json \<Rightarrow> json \<Rightarrow> json \<Rightarrow> json \<Rightarrow> event list \<times> py_exn option" where
  "generate_stream rid created model cont =
     (case py_len cont of
        Inl e \<Rightarrow> ([], Some e)
      | Inr n \<Rightarrow>
          (let chunk_size = max 1 (n div 50) in
           case emit_chunks rid created model cont chunk_size (range_step 0 n chunk_size) of
             (evs, Some e) \<Rightarrow> (evs, Some e)
           | (evs, None) \<Rightarrow> (evs @ [Data (final_data rid created model), Done], None)))"

text \<open>\<^verbatim>\<open>str(n)\<close> for an integer: its decimal digits.\<close>

function str_nat :: "nat \<Rightarrow> string" where
  "str_nat n =
     (if n < 10 then [char_of (48 + n)] else str_nat (n div 10) @ [char_of (48 + n mod 10)])"
  by pat_completeness auto
termination
  by (relation "measure (\<lambda>n. n)") auto

declare str_nat.simps [simp del]

definition py_str :: "int \<Rightarrow> string" where
  "py_str i = (if i < 0 then CHR ''-'' # str_nat (nat (- i)) else str_nat (nat i))"

text \<open>
  \<^verbatim>\<open>stream_response_content(result, content)\<close>, with \<open>now\<close> for
  \<^verbatim>\<open>int(time.time())\<close>: the events of the \<^verbatim>\<open>StreamingResponse\<close> it returns, or the
  exception it raises before returning.
\<close>

definition stream_response_content ::
  "int \<Rightarrow> json \<Rightarrow> json \<Rightarrow> py_exn + event list \<times> py_exn option" where
  "stream_response_content now res cont =
     bind_exn (py_get res ''id'' (JStr (''chatcmpl-'' @ py_str now))) (\<lambda>response_id.
     bind_exn (py_get res ''created'' (JNum now)) (\<lambda>created_time.
     bind_exn (py_get res ''model'' (JStr ''gemini-2.5-flash'')) (\<lambda>model_name.
       Inr (generate_stream response_id created_time model_name cont))))"

section \<open>One upstream call\<close>

text \<open>\<^verbatim>\<open>s.split(c)\<close> for a one-character separator: never an empty list.\<close>

fun split_on :: "char \<Rightarrow> string \<Rightarrow> string list" where
  "split_on c [] = [[]]"
| "split_on c (x # xs) =
     (if x = c then [] # split_on c xs
      else (case split_on c xs of [] \<Rightarrow> [[x]] | p # ps \<Rightarrow> (x # p) # ps))"

text \<open>\<^verbatim>\<open>xs[i]\<close> for \<open>0 \<le> i\<close>.\<close>

definition py_index :: "'a list \<Rightarrow> nat \<Rightarrow> py_exn + 'a" where
  "py_index xs i = (if i < length xs then Inr (xs ! i) else Inl IndexError)"

text \<open>The characters \<^verbatim>\<open>str.strip()\<close> removes, among the 256 a \<^typ>\<open>char\<close> has.\<close>

definition py_isspace :: "char \<Rightarrow> bool" where
  "py_isspace c = List.member [9, 10, 11, 12, 13, 28, 29, 30, 31, 32, 133, 160] (of_char c :: nat)"

definition py_strip :: "string \<Rightarrow> string" where
  "py_strip s = rev (dropWhile py_isspace (rev (dropWhile py_isspace s)))"

text \<open>\<^verbatim>\<open>s += x\<close> for a string \<^verbatim>\<open>s\<close>.\<close>

fun str_add :: "string \<Rightarrow> json \<Rightarrow> py_exn + string" where
  "str_add s (JStr t) = Inr (s @ t)"
| "str_add s _ = Inl TypeError"

text \<open>The allow-list of \<^verbatim>\<open>send_single_request\<close>.\<close>

definition supported_params :: "string list" where
  "supported_params =
     [''model'', ''messages'', ''temperature'', ''max_tokens'', ''top_p'', ''top_k'', ''stop'']"

text \<open>
  The loop \<^verbatim>\<open>for key, value in request_data.items()\<close> filling \<^verbatim>\<open>cleaned_data\<close>;
  \<^const>\<open>AList.update\<close> is the assignment \<^verbatim>\<open>cleaned_data[key] = value\<close>.
\<close>

fun clean_request :: "(string \<times> json) list \<Rightarrow> (string \<times> json) list \<Rightarrow> (string \<times> json) list" where
  "clean_request [] cleaned_data = cleaned_data"
| "clean_request ((key, val) # items) cleaned_data =
     clean_request items
       (if List.member supported_params key then AList.update key val cleaned_data
        else cleaned_data)"

text \<open>What \<^verbatim>\<open>client.post\<close> is given.\<close>

record upstream_call =
  url :: string
  authorization :: string
  body :: "(string \<times> json) list"
  timeout :: int

definition upstream_request ::
  "string \<Rightarrow> int \<Rightarrow> string \<Rightarrow> (string \<times> json) list \<Rightarrow> upstream_call" where
  "upstream_request base request_timeout key request_data =
     \<lparr>url = base @ ''/openai/chat/completions'',
      authorization = ''Bearer '' @ key,
      body = clean_request request_data [],
      timeout = request_timeout\<rparr>"

text \<open>
  What the upstream does with the call: \<^verbatim>\<open>client.post\<close> raises (a network error or a
  timeout is \<open>RequestError\<close>), or a response with a status code and a text arrives.
\<close>

datatype upstream_reply = Raises py_exn | Replies nat string

text \<open>\<^verbatim>\<open>response.raise_for_status()\<close> of httpx raises unless the status is 2xx.\<close>

definition is_success :: "nat \<Rightarrow> bool" where
  "is_success status = (200 \<le> status \<and> status < 300)"

text \<open>The variables of the event-stream loop of \<^verbatim>\<open>send_single_request\<close>.\<close>

record sse =
  sse_content :: string
  final_id :: json
  final_model :: json
  final_created :: json

text \<open>
  The loop body for one line. \<open>loads\<close> is \<^verbatim>\<open>json.loads\<close>, \<open>None\<close> where it raises
  \<^verbatim>\<open>JSONDecodeError\<close> (the only exception the inner \<^verbatim>\<open>try\<close> catches).
\<close>

definition sse_line :: "(string \<Rightarrow> json option) \<Rightarrow> sse \<Rightarrow> string \<Rightarrow> py_exn + sse" where
  "sse_line loads st line =
     (if \<not> prefix ''data: '' line then Inr st
      else case loads (drop 6 line) of
        None \<Rightarrow> Inr st
      | Some data \<Rightarrow>
          if data = JStr ''[DONE]'' then Inr st
          else bind_exn (py_in ''choices'' data) (\<lambda>has_choices.
            if \<not> has_choices then Inr st
            else bind_exn (py_getitem data ''choices'') (\<lambda>choices.
              if \<not> truthy choices then Inr st
              else bind_exn (py_first choices) (\<lambda>choice.
                bind_exn (py_get choice ''delta'' (JObj [])) (\<lambda>delta.
                bind_exn (py_in ''content'' delta) (\<lambda>has_content.
                bind_exn (if has_content
                          then bind_exn (py_getitem delta ''content'') (str_add (sse_content st))
                          else Inr (sse_content st)) (\<lambda>content'.
                bind_exn (py_in ''id'' data) (\<lambda>has_id.
                bind_exn (if has_id then py_getitem data ''id'' else Inr (final_id st)) (\<lambda>id'.
                bind_exn (py_in ''model'' data) (\<lambda>has_model.
                bind_exn (if has_model then py_getitem data ''model'' else Inr (final_model st))
                  (\<lambda>model'.
                bind_exn (py_in ''created'' data) (\<lambda>has_created.
                bind_exn (if has_created then py_getitem data ''created''
                          else Inr (final_created st)) (\<lambda>created'.
                  Inr \<lparr>sse_content = content', final_id = id', final_model = model',
                       final_created = created'\<rparr>)))))))))))))"

fun sse_lines :: "(string \<Rightarrow> json option) \<Rightarrow> sse \<Rightarrow> string list \<Rightarrow> py_exn + sse" where
  "sse_lines loads st [] = Inr st"
| "sse_lines loads st (line # lines) =
     bind_exn (sse_line loads st line) (\<lambda>st'. sse_lines loads st' lines)"

text \<open>The completion built from the accumulated stream.\<close>

definition sse_completion :: "int \<Rightarrow> sse \<Rightarrow> json" where
  "sse_completion now st =
     JObj [(''id'', if truthy (final_id st) then final_id st
                    else JStr (''chatcmpl-'' @ py_str now)),
           (''object'', JStr ''chat.completion''),
           (''created'', final_created st),
           (''model'', if truthy (final_model st) then final_model st
                       else JStr ''gemini-2.5-flash''),
           (''choices'', JArr [JObj [(''index'', JNum 0),
                                     (''message'', JObj [(''role'', JStr ''assistant''),
                                                         (''content'', JStr (sse_content st))]),
                                     (''finish_reason'', JStr ''stop'')]]),
           (''usage'', JObj [(''prompt_tokens'', JNum 0), (''completion_tokens'', JNum 0),
                             (''total_tokens'', JNum 0)])]"

text \<open>
  The \<^verbatim>\<open>if "data:" in response_text\<close> block: the completion it returns, \<open>None\<close> when
  it falls through to \<^verbatim>\<open>response.json()\<close>, or the exception it raises.
\<close>

definition from_event_stream ::
  "(string \<Rightarrow> json option) \<Rightarrow> int \<Rightarrow> string \<Rightarrow> py_exn + json option" where
  "from_event_stream loads now response_text =
     (if sublist ''data:'' response_text
      then bind_exn
             (sse_lines loads
                \<lparr>sse_content = [], final_id = JStr [], final_model = JStr [],
                 final_created = JNum now\<rparr>
                (split_on (CHR 0x0A) (py_strip response_text)))
             (\<lambda>st. Inr (if sse_content st \<noteq> [] then Some (sse_completion now st) else None))
      else Inr None)"

text \<open>
  The outer \<^verbatim>\<open>try\<close> block of \<^verbatim>\<open>send_single_request\<close>: the value it returns or the
  exception that reaches the \<^verbatim>\<open>except\<close> clauses. \<^verbatim>\<open>response.json()\<close> is \<open>loads\<close>
  on the text; its \<^verbatim>\<open>ValueError\<close> is caught on the spot and \<^verbatim>\<open>None\<close> returned.
\<close>

definition try_request :: "(string \<Rightarrow> json option) \<Rightarrow> int \<Rightarrow> upstream_reply \<Rightarrow> py_exn + json" where
  "try_request loads now reply =
     (case reply of
        Raises e \<Rightarrow> Inl e
      | Replies status response_text \<Rightarrow>
          if \<not> is_success status then Inl HTTPStatusError
          else bind_exn (from_event_stream loads now response_text) (\<lambda>assembled.
            case assembled of
              Some completion \<Rightarrow> Inr completion
            | None \<Rightarrow> (case loads response_text of None \<Rightarrow> Inr JNull | Some j \<Rightarrow> Inr j)))"

section \<open>Configuration and the surroundings of one inbound call\<close>

text \<open>The fields of \<^verbatim>\<open>get_server_config()\<close> that the handlers read.\<close>

record server_config =
  api_key :: string
  min_response_length :: int
  request_timeout :: int

text \<open>\<^verbatim>\<open>get_api_keys()\<close>.\<close>

record api_keys =
  group1 :: "string list"
  group2 :: "string list"

text \<open>
  Everything outside the handlers that one inbound call depends on: the configuration
  file as it is loaded, \<^verbatim>\<open>json.loads\<close>, \<^verbatim>\<open>int(time.time())\<close>, and for every call
  sent upstream the time it takes and how it ends.
\<close>

record world =
  server :: server_config
  keys :: api_keys
  base_url :: string
  json_loads :: "string \<Rightarrow> json option"
  clock :: int
  upstream :: "upstream_call \<Rightarrow> nat \<times> upstream_reply"

text \<open>
  \<^verbatim>\<open>send_single_request(client, api_key, request_data)\<close>: both \<^verbatim>\<open>except\<close> clauses
  log the error and return \<^verbatim>\<open>None\<close>.
\<close>

definition send_single_request :: "world \<Rightarrow> string \<Rightarrow> (string \<times> json) list \<Rightarrow> json" where
  "send_single_request w key request_data =
     (let call = upstream_request (base_url w) (request_timeout (server w)) key request_data
      in case try_request (json_loads w) (clock w) (snd (upstream w call)) of
           Inl e \<Rightarrow> JNull
         | Inr j \<Rightarrow> j)"

section \<open>Credential rotation\<close>

datatype key_group = Group1 | Group2

text \<open>The list comprehension's filter in \<^verbatim>\<open>get_current_api_keys\<close>.\<close>

definition usable_key :: "string \<Rightarrow> bool" where
  "usable_key key = (key \<noteq> [] \<and> \<not> prefix ''YOUR_'' key \<and> 10 < length key)"

text \<open>
  One call of \<^verbatim>\<open>get_current_api_keys\<close> on the freshly loaded key groups and the
  global \<^verbatim>\<open>current_group_index\<close>: the keys returned, the group named in its log line,
  and the new value of the global.
\<close>

record selection =
  valid_keys :: "string list"
  logged_group :: key_group
  next_index :: int

definition get_current_api_keys :: "api_keys \<Rightarrow> int \<Rightarrow> selection" where
  "get_current_api_keys ks current_group_index =
     (let (chosen, index') =
            (if current_group_index = 0 then (group1 ks, 1) else (group2 ks, 0))
      in \<lparr>valid_keys = filter usable_key chosen,
          logged_group = (if index' = 1 then Group1 else Group2),
          next_index = index'\<rparr>)"

text \<open>
  Successive calls, each on the configuration loaded at that moment, threading the global
  through.
\<close>

fun selections :: "api_keys list \<Rightarrow> int \<Rightarrow> selection list" where
  "selections [] current_group_index = []"
| "selections (ks # rest) current_group_index =
     (let sel = get_current_api_keys ks current_group_index
      in sel # selections rest (next_index sel))"

section \<open>The two handlers\<close>

datatype detail =
    BadAuthorizationHeader
  | InvalidApiKey
  | NoApiKeyAvailable
  | NoValidApiKeyConfigured
  | AllUpstreamFailed
  | InternalError py_exn

text \<open>
  What the client gets: an \<^verbatim>\<open>HTTPException\<close> with its status code and detail, a
  \<^verbatim>\<open>JSONResponse\<close>, or a \<^verbatim>\<open>StreamingResponse\<close> with the events its generator
  yields and the exception that cut it short, if any.
\<close>

datatype http_response =
    HTTPException nat detail
  | JSONResponse json
  | StreamingResponse "event list" "py_exn option"

text \<open>
  The outcome of one inbound call: the response, the calls sent upstream, and
  \<^verbatim>\<open>current_group_index\<close> afterwards.
\<close>

record handled =
  response :: http_response
  upstream_calls :: "upstream_call list"
  group_index :: int

text \<open>The list comprehension creating one task per key.\<close>

definition create_tasks :: "world \<Rightarrow> (string \<times> json) list \<Rightarrow> string list \<Rightarrow> task list" where
  "create_tasks w request_data current_keys =
     map (\<lambda>key.
            \<lparr>task_key = key,
             finish = fst (upstream w
                        (upstream_request (base_url w) (request_timeout (server w)) key request_data)),
             outcome = send_single_request w key request_data\<rparr>)
         current_keys"

definition calls_sent :: "world \<Rightarrow> (string \<times> json) list \<Rightarrow> string list \<Rightarrow> upstream_call list" where
  "calls_sent w request_data current_keys =
     map (\<lambda>key. upstream_request (base_url w) (request_timeout (server w)) key request_data)
         current_keys"

text \<open>
  \<^verbatim>\<open>generate_fake_stream_response(request_data)\<close>; an \<^verbatim>\<open>HTTPException\<close> passes
  through its handler, any other exception becomes a 500.
\<close>

definition generate_fake_stream_response :: "world \<Rightarrow> int \<Rightarrow> (string \<times> json) list \<Rightarrow> handled" where
  "generate_fake_stream_response w current_group_index request_data =
     (let sel = get_current_api_keys (keys w) current_group_index;
          current_keys = valid_keys sel
      in if current_keys = []
         then \<lparr>response = HTTPException 500 NoApiKeyAvailable, upstream_calls = [],
               group_index = next_index sel\<rparr>
         else
           \<lparr>response =
              (case arbitrate (min_response_length (server w))
                      (create_tasks w request_data current_keys) of
                 Inl e \<Rightarrow> HTTPException 500 (InternalError e)
               | Inr a \<Rightarrow>
                   (case best_response a of
                      None \<Rightarrow> HTTPException 503 AllUpstreamFailed
                    | Some best \<Rightarrow>
                        (case stream_response_content (clock w) (result best) (content best) of
                           Inl e \<Rightarrow> HTTPException 500 (InternalError e)
                         | Inr (evs, err) \<Rightarrow> StreamingResponse evs err))),
            upstream_calls = calls_sent w request_data current_keys,
            group_index = next_index sel\<rparr>)"

text \<open>
  The part of \<^verbatim>\<open>chat_completions_proxy\<close> after the authorization check, for a request
  that does not ask for a stream.
\<close>

definition proxy_completion :: "world \<Rightarrow> int \<Rightarrow> (string \<times> json) list \<Rightarrow> handled" where
  "proxy_completion w current_group_index request_data =
     (let sel = get_current_api_keys (keys w) current_group_index;
          current_keys = valid_keys sel
      in if current_keys = []
         then \<lparr>response = HTTPException 500 NoValidApiKeyConfigured, upstream_calls = [],
               group_index = next_index sel\<rparr>
         else
           \<lparr>response =
              (case arbitrate (min_response_length (server w))
                      (create_tasks w request_data current_keys) of
                 Inl e \<Rightarrow> HTTPException 500 (InternalError e)
               | Inr a \<Rightarrow>
                   (case best_response a of
                      None \<Rightarrow> HTTPException 503 AllUpstreamFailed
                    | Some best \<Rightarrow> JSONResponse (result best))),
            upstream_calls = calls_sent w request_data current_keys,
            group_index = next_index sel\<rparr>)"

text \<open>
  \<^verbatim>\<open>chat_completions_proxy\<close>, given the \<^verbatim>\<open>Authorization\<close> header (if any),
  \<^verbatim>\<open>chat_request.stream\<close> and the request's JSON object.
\<close>

definition chat_completions_proxy ::
  "world \<Rightarrow> int \<Rightarrow> string option \<Rightarrow> bool \<Rightarrow> (string \<times> json) list \<Rightarrow> handled" where
  "chat_completions_proxy w current_group_index api_key_header stream request_data =
     (let rejected = (\<lambda>code d.
            \<lparr>response = HTTPException code d, upstream_calls = [],
             group_index = current_group_index\<rparr>)
      in case api_key_header of
        None \<Rightarrow> rejected 401 BadAuthorizationHeader
      | Some header \<Rightarrow>
          if header = [] \<or> \<not> prefix ''Bearer '' header
          then rejected 401 BadAuthorizationHeader
          else (case py_index (split_on CHR '' '' header) 1 of
             Inl e \<Rightarrow> rejected 500 (InternalError e)
           | Inr provided_key \<Rightarrow>
               if provided_key = [] \<or> provided_key \<noteq> api_key (server w)
               then rejected 401 InvalidApiKey
               else if stream
               then generate_fake_stream_response w current_group_index request_data
               else proxy_completion w current_group_index request_data))"

section \<open>The request monitor\<close>

text \<open>
  \<^verbatim>\<open>888/monitor.py\<close>. A \<^verbatim>\<open>deque(maxlen=n)\<close> is a list with its oldest entry first;
  \<^verbatim>\<open>append\<close> adds at the right and, when the length then exceeds \<open>n\<close>, drops the
  leftmost entry.
\<close>

definition deque_append :: "nat \<Rightarrow> 'a list \<Rightarrow> 'a \<Rightarrow> 'a list" where
  "deque_append maxlen xs x = (let ys = xs @ [x] in if maxlen < length ys then tl ys else ys)"

text \<open>\<^verbatim>\<open>d[key] += 1\<close> on a \<^verbatim>\<open>defaultdict(int)\<close>.\<close>

definition bump :: "'k \<Rightarrow> ('k \<times> nat) list \<Rightarrow> ('k \<times> nat) list" where
  "bump key d = AList.update key (case map_of d key of None \<Rightarrow> 1 | Some n \<Rightarrow> n + 1) d"

text \<open>\<^verbatim>\<open>list(d)[-limit:]\<close>; a limit of zero gives the whole list.\<close>

definition last_entries :: "int \<Rightarrow> 'a list \<Rightarrow> 'a list" where
  "last_entries limit xs =
     (if 0 < limit then drop (length xs - nat limit) xs else drop (nat (- limit)) xs)"

text \<open>
  The two messages \<^verbatim>\<open>record_request\<close> formats (a truncated response with its length
  and the minimum, a completed request with its status code), and any other text.
\<close>

datatype log_message =
    ResponseTruncated int int
  | RequestCompleted int
  | Message string

text \<open>
  A value of a log entry's \<^verbatim>\<open>details\<close>: a string, an integer, or a float; \<open>Seconds t\<close>
  is the text of \<open>t\<close> with two decimals and the unit.
\<close>

datatype detail_value = DStr string | DInt int | DFloat real | Seconds real

record log_entry =
  log_timestamp :: nat
  log_level :: string
  log_message :: log_message
  log_details :: "(string \<times> detail_value) list"

record error_entry =
  err_timestamp :: nat
  err_api_key :: string
  err_status_code :: int
  err_error :: string
  err_response_time :: real

text \<open>
  The attributes of a \<^verbatim>\<open>RequestMonitor\<close>; \<open>locked\<close> is the state of its
  \<^verbatim>\<open>asyncio.Lock\<close>. The capacity is a natural number: a negative \<^verbatim>\<open>maxlen\<close> is
  refused by \<^verbatim>\<open>deque\<close>.
\<close>

record RequestMonitor =
  max_log_entries :: nat
  total_requests :: nat
  successful_requests :: nat
  failed_requests :: nat
  truncated_responses :: nat
  status_codes :: "(int \<times> nat) list"
  api_key_usage :: "(string \<times> nat) list"
  api_key_failures :: "(string \<times> nat) list"
  response_times :: "real list"
  recent_logs :: "log_entry list"
  error_details :: "error_entry list"
  start_time :: nat
  locked :: bool

text \<open>\<^verbatim>\<open>RequestMonitor.__init__\<close> at time \<open>now\<close>.\<close>

definition new_monitor :: "nat \<Rightarrow> nat \<Rightarrow> RequestMonitor" where
  "new_monitor capacity now =
     \<lparr>max_log_entries = capacity, total_requests = 0, successful_requests = 0,
      failed_requests = 0, truncated_responses = 0, status_codes = [], api_key_usage = [],
      api_key_failures = [], response_times = [], recent_logs = [], error_details = [],
      start_time = now, locked = False\<rparr>"

text \<open>
  How a coroutine of the monitor ends: it returns a value and leaves the monitor in a
  state, or it stays suspended for ever on the lock, the monitor being in the state it
  had reached.
\<close>

datatype 'a outcome = Returned 'a RequestMonitor | Blocked RequestMonitor

fun state_after :: "'a outcome \<Rightarrow> RequestMonitor" where
  "state_after (Returned a m) = m"
| "state_after (Blocked m) = m"

text \<open>
  \<^verbatim>\<open>async with self._lock:\<close> around its block. \<^verbatim>\<open>asyncio.Lock\<close> has no owner: acquiring
  a held lock waits for a \<^verbatim>\<open>release()\<close>, whoever holds it. Operations run one after the
  other here, so a lock that is held is held by a coroutine that is itself suspended on
  it, and the wait has no end.
\<close>

definition with_lock :: "RequestMonitor \<Rightarrow> (RequestMonitor \<Rightarrow> 'a outcome) \<Rightarrow> 'a outcome" where
  "with_lock m section =
     (if locked m then Blocked m
      else case section (m\<lparr>locked := True\<rparr>) of
             Returned a m' \<Rightarrow> Returned a (m'\<lparr>locked := False\<rparr>)
           | Blocked m' \<Rightarrow> Blocked m')"

text \<open>\<^verbatim>\<open>add_log(level, message, details)\<close> at time \<open>now\<close>.\<close>

definition add_log ::
  "RequestMonitor \<Rightarrow> nat \<Rightarrow> string \<Rightarrow> log_message \<Rightarrow> (string \<times> detail_value) list option
     \<Rightarrow> unit outcome" where
  "add_log m now level msg details =
     with_lock m (\<lambda>m.
       let log_entry = \<lparr>log_timestamp = now, log_level = level, log_message = msg,
                         log_details = (case details of None \<Rightarrow> [] | Some d \<Rightarrow> d)\<rparr>
       in Returned () (m\<lparr>recent_logs := deque_append (max_log_entries m) (recent_logs m) log_entry\<rparr>))"

text \<open>\<^verbatim>\<open>api_key[:8] + "..."\<close>.\<close>

definition key_prefix :: "string \<Rightarrow> string" where
  "key_prefix key = take 8 key @ ''...''"

text \<open>
  \<^verbatim>\<open>record_request(api_key, status_code, response_time, response_length, min_length,
  error_msg)\<close> at time \<open>now\<close>. Both calls of \<^verbatim>\<open>add_log\<close> are awaited inside the
  \<^verbatim>\<open>async with\<close> block.
\<close>

definition record_request ::
  "RequestMonitor \<Rightarrow> nat \<Rightarrow> string \<Rightarrow> int \<Rightarrow> real \<Rightarrow> int \<Rightarrow> int \<Rightarrow> string option
     \<Rightarrow> unit outcome" where
  "record_request m now key status_code response_time response_length min_length error_msg =
     with_lock m (\<lambda>m.
       let m = m\<lparr>total_requests := total_requests m + 1\<rparr>;
           m = m\<lparr>status_codes := bump status_code (status_codes m)\<rparr>;
           m = m\<lparr>api_key_usage := bump key (api_key_usage m)\<rparr>;
           ok = (200 \<le> status_code \<and> status_code < 300);
           branch =
             (if ok then
                (let m = m\<lparr>successful_requests := successful_requests m + 1\<rparr>
                 in if 0 < response_length \<and> response_length < min_length
                    then add_log (m\<lparr>truncated_responses := truncated_responses m + 1\<rparr>) now
                           ''WARNING'' (ResponseTruncated response_length min_length)
                           (Some [(''api_key'', DStr (key_prefix key)),
                                  (''response_length'', DInt response_length),
                                  (''min_length'', DInt min_length)])
                    else Returned () m)
              else
                (let m = m\<lparr>failed_requests := failed_requests m + 1\<rparr>;
                     m = m\<lparr>api_key_failures := bump key (api_key_failures m)\<rparr>
                 in case error_msg of
                      Some e \<Rightarrow>
                        if e \<noteq> [] then
                          Returned () (m\<lparr>error_details := deque_append 100 (error_details m)
                            \<lparr>err_timestamp = now, err_api_key = key_prefix key,
                             err_status_code = status_code, err_error = e,
                             err_response_time = response_time\<rparr>\<rparr>)
                        else Returned () m
                    | None \<Rightarrow> Returned () m))
       in case branch of
            Blocked m \<Rightarrow> Blocked m
          | Returned u m \<Rightarrow>
              add_log (m\<lparr>response_times := deque_append 100 (response_times m) response_time\<rparr>)
                now (if ok then ''INFO'' else ''ERROR'') (RequestCompleted status_code)
                (Some [(''api_key'', DStr (key_prefix key)),
                       (''response_time'', Seconds response_time),
                       (''response_length'', DInt response_length)]))"

text \<open>
  The fields of \<^verbatim>\<open>get_stats()\<close> that are counters or taken from the tables; the rounded
  rates and the formatted uptime are left out.
\<close>

record snapshot =
  snap_total_requests :: nat
  snap_successful_requests :: nat
  snap_failed_requests :: nat
  snap_truncated_responses :: nat
  snap_status_codes :: "(int \<times> nat) list"
  snap_error_status_codes :: "(int \<times> nat) list"
  snap_start_time :: nat
  snap_api_keys_total :: nat
  snap_api_keys_failed :: nat

definition get_stats :: "RequestMonitor \<Rightarrow> snapshot outcome" where
  "get_stats m =
     with_lock m (\<lambda>m. Returned
       \<lparr>snap_total_requests = total_requests m,
        snap_successful_requests = successful_requests m,
        snap_failed_requests = failed_requests m,
        snap_truncated_responses = truncated_responses m,
        snap_status_codes = status_codes m,
        snap_error_status_codes = filter (\<lambda>(code, count). 400 \<le> code) (status_codes m),
        snap_start_time = start_time m,
        snap_api_keys_total = length (api_key_usage m),
        snap_api_keys_failed = length (filter (\<lambda>(k, v). 0 < v) (api_key_failures m))\<rparr> m)"

definition get_recent_logs :: "RequestMonitor \<Rightarrow> int \<Rightarrow> log_entry list outcome" where
  "get_recent_logs m limit = with_lock m (\<lambda>m. Returned (last_entries limit (recent_logs m)) m)"

definition get_error_details :: "RequestMonitor \<Rightarrow> int \<Rightarrow> error_entry list outcome" where
  "get_error_details m limit =
     with_lock m (\<lambda>m. Returned (last_entries limit (error_details m)) m)"

text \<open>\<^verbatim>\<open>reset_stats()\<close> at time \<open>now\<close>.\<close>

definition reset_stats :: "RequestMonitor \<Rightarrow> nat \<Rightarrow> unit outcome" where
  "reset_stats m now =
     with_lock m (\<lambda>m. Returned ()
       (m\<lparr>total_requests := 0, successful_requests := 0, failed_requests := 0,
          truncated_responses := 0, status_codes := [], api_key_usage := [],
          api_key_failures := [], response_times := [], recent_logs := [],
          error_details := [], start_time := now\<rparr>))"

text \<open>The operations of the monitor, and a run of them one after the other.\<close>

datatype monitor_op =
    Record string int real int int "string option"
  | AddLog string log_message "(string \<times> detail_value) list option"
  | Reset
  | Snapshot
  | RecentLogs int
  | ErrorDetails int

fun apply_op :: "RequestMonitor \<Rightarrow> nat \<times> monitor_op \<Rightarrow> RequestMonitor" where
  "apply_op m (now, Record key status_code response_time response_length min_length error_msg) =
     state_after
       (record_request m now key status_code response_time response_length min_length error_msg)"
| "apply_op m (now, AddLog level msg details) = state_after (add_log m now level msg details)"
| "apply_op m (now, Reset) = state_after (reset_stats m now)"
| "apply_op m (now, Snapshot) = state_after (get_stats m)"
| "apply_op m (now, RecentLogs limit) = state_after (get_recent_logs m limit)"
| "apply_op m (now, ErrorDetails limit) = state_after (get_error_details m limit)"

fun run_ops :: "RequestMonitor \<Rightarrow> (nat \<times> monitor_op) list \<Rightarrow> RequestMonitor" where
  "run_ops m [] = m"
| "run_ops m (op # ops) = run_ops (apply_op m op) ops"

definition within_capacity :: "RequestMonitor \<Rightarrow> bool" where
  "within_capacity m =
     (length (recent_logs m) \<le> max_log_entries m \<and> length (error_details m) \<le> 100
      \<and> length (response_times m) \<le> 100)"

section \<open>Vocabulary of the properties, and a concrete deployment\<close>

text \<open>
  The definitions of this section are not part of the program: they name what the
  properties below speak about, and fix one configuration, one upstream and a few inputs
  on which the program is run.
\<close>

text \<open>
  The valid candidates among the results \<open>rs\<close>, in the order of \<open>rs\<close>: the entries the
  first loop appends when none of the results makes it raise.
\<close>

definition candidates :: "int \<Rightarrow> json list \<Rightarrow> candidate list" where
  "candidates m rs =
     concat (map (\<lambda>r. case valid_candidate m r of Inr (Some v) \<Rightarrow> [v] | _ \<Rightarrow> []) rs)"

text \<open>A completion object as the upstream returns it, with the message content \<open>c\<close>.\<close>

definition completion_with :: "json \<Rightarrow> json" where
  "completion_with c =
     JObj [(''id'', JStr ''chatcmpl-1''), (''model'', JStr ''gemini-2.5-flash''),
           (''choices'', JArr [JObj [(''index'', JNum 0),
                                     (''message'', JObj [(''role'', JStr ''assistant''),
                                                         (''content'', c)]),
                                     (''finish_reason'', JStr ''stop'')]])]"

text \<open>\<^verbatim>\<open>json.loads\<close> on the five bodies the example upstream sends; any other text is not JSON.\<close>

definition example_loads :: "string \<Rightarrow> json option" where
  "example_loads s =
     (if s = ''short'' then Some (completion_with (JStr ''tiny''))
      else if s = ''long'' then Some (completion_with (JStr ''a longer answer''))
      else if s = ''same'' then Some (completion_with (JStr ''another answer.''))
      else if s = ''null'' then Some (completion_with JNull)
      else if s = ''other'' then Some (JObj [(''error'', JStr ''quota'')])
      else None)"

text \<open>
  The example upstream: what it answers to each credential and after how many seconds.
  An unknown credential gets a status 500.
\<close>

definition example_upstream :: "upstream_call \<Rightarrow> nat \<times> upstream_reply" where
  "example_upstream call =
     (if authorization call = ''Bearer AIzaSy-key-one'' then (40, Replies 200 ''same'')
      else if authorization call = ''Bearer AIzaSy-key-two'' then (1, Replies 200 ''short'')
      else if authorization call = ''Bearer AIzaSy-key-three'' then (2, Raises RequestError)
      else if authorization call = ''Bearer AIzaSy-key-four'' then (30, Replies 200 ''long'')
      else if authorization call = ''Bearer AIzaSy-key-five'' then (5, Replies 200 ''null'')
      else if authorization call = ''Bearer AIzaSy-key-six'' then (4, Replies 200 ''other'')
      else if authorization call = ''Bearer AIzaSy-key-seven'' then (6, Replies 200 ''<html>'')
      else (3, Replies 500 []))"

text \<open>The example deployment: server key \<^verbatim>\<open>123\<close>, minimum length 3, two key groups.\<close>

definition example_world :: world where
  "example_world =
     \<lparr>server = \<lparr>api_key = ''123'', min_response_length = 3, request_timeout = 120\<rparr>,
      keys = \<lparr>group1 = [''AIzaSy-key-one'', ''AIzaSy-key-two'', ''AIzaSy-key-three'',
                         ''AIzaSy-key-four''],
              group2 = [''AIzaSy-key-five'']\<rparr>,
      base_url = ''https://generativelanguage.googleapis.com/v1beta'',
      json_loads = example_loads,
      clock = 1700000000,
      upstream = example_upstream\<rparr>"

text \<open>A request body with two fields outside the allow-list.\<close>

definition example_request :: "(string \<times> json) list" where
  "example_request =
     [(''model'', JStr ''gemini-2.5-flash''),
      (''messages'', JArr [JObj [(''role'', JStr ''user''), (''content'', JStr ''hello'')]]),
      (''stream'', JBool False),
      (''temperature'', JNum 1),
      (''user'', JStr ''someone'')]"

text \<open>The entry of \<^verbatim>\<open>valid_responses\<close> for a completion with the content \<open>s\<close>.\<close>

definition example_candidate :: "string \<Rightarrow> candidate" where
  "example_candidate s =
     \<lparr>result = completion_with (JStr s), content = JStr s, token_count = length s\<rparr>"

text \<open>
  What a client reads in an event: \<^verbatim>\<open>choices[0]\<close> of its JSON, the \<^verbatim>\<open>delta\<close> and the
  \<^verbatim>\<open>finish_reason\<close> of that choice, and the text of \<^verbatim>\<open>delta.content\<close> (empty when the
  event has none).
\<close>

definition event_choice :: "event \<Rightarrow> json option" where
  "event_choice ev =
     (case ev of
        Done \<Rightarrow> None
      | Data j \<Rightarrow>
          (case py_getitem j ''choices'' of
             Inl e \<Rightarrow> None
           | Inr choices \<Rightarrow> (case py_first choices of Inl e \<Rightarrow> None | Inr c \<Rightarrow> Some c)))"

definition event_delta :: "event \<Rightarrow> json option" where
  "event_delta ev =
     (case event_choice ev of
        None \<Rightarrow> None
      | Some c \<Rightarrow> (case py_getitem c ''delta'' of Inl e \<Rightarrow> None | Inr d \<Rightarrow> Some d))"

definition event_finish_reason :: "event \<Rightarrow> json option" where
  "event_finish_reason ev =
     (case event_choice ev of
        None \<Rightarrow> None
      | Some c \<Rightarrow> (case py_getitem c ''finish_reason'' of Inl e \<Rightarrow> None | Inr f \<Rightarrow> Some f))"

definition event_content :: "event \<Rightarrow> string" where
  "event_content ev =
     (case event_delta ev of
        Some (JObj d) \<Rightarrow> (case map_of d ''content'' of Some (JStr t) \<Rightarrow> t | _ \<Rightarrow> [])
      | _ \<Rightarrow> [])"

text \<open>
  The group that call number \<open>k\<close> (from 0) of the rotation uses when
  \<^verbatim>\<open>current_group_index\<close> was \<open>start\<close> before call 0, and the keys of a group.
\<close>

definition group_at :: "int \<Rightarrow> nat \<Rightarrow> key_group" where
  "group_at start k = (if (start = 0) = even k then Group1 else Group2)"

definition keys_of :: "key_group \<Rightarrow> api_keys \<Rightarrow> string list" where
  "keys_of g ks = (case g of Group1 \<Rightarrow> group1 ks | Group2 \<Rightarrow> group2 ks)"

text \<open>Two configurations, some of whose keys are not usable.\<close>

definition example_keys_a :: api_keys where
  "example_keys_a = \<lparr>group1 = [''AIzaSy-key-one'', ''YOUR_API_KEY_HERE'', ''short''],
                     group2 = [''AIzaSy-key-five'']\<rparr>"

definition example_keys_b :: api_keys where
  "example_keys_b = \<lparr>group1 = [''AIzaSy-key-nine''], group2 = [''AIzaSy-key-six'', '''']\<rparr>"

text \<open>An item of the request whose name is in the allow-list.\<close>

definition allowed :: "string \<times> json \<Rightarrow> bool" where
  "allowed item = List.member supported_params (fst item)"

text \<open>
  The monitor \<open>m'\<close> is within its capacities, and its log capacity is that of \<open>m\<close>.
\<close>

definition same_capacity :: "RequestMonitor \<Rightarrow> RequestMonitor \<Rightarrow> bool" where
  "same_capacity m m' = (within_capacity m' \<and> max_log_entries m' = max_log_entries m)"

text \<open>
  A run of the monitor with a log capacity of 2: three log entries, a snapshot, a failed
  request, one more log entry.
\<close>

definition example_ops :: "(nat \<times> monitor_op) list" where
  "example_ops =
     [(1, AddLog ''INFO'' (Message ''a'') None),
      (2, AddLog ''INFO'' (Message ''b'') None),
      (3, AddLog ''INFO'' (Message ''c'') None),
      (4, Snapshot),
      (5, Record ''AIzaSy-key-one'' 502 (3 / 2) 0 300 (Some ''bad gateway'')),
      (6, AddLog ''INFO'' (Message ''d'') None)]"

text \<open>
  A successful completion read without the handler: the result is an object whose
  \<^verbatim>\<open>choices\<close> is a list starting with an object, whose \<^verbatim>\<open>message\<close> is an object, whose
  \<^verbatim>\<open>content\<close> is a string; that string is its content.
\<close>

definition success_content :: "json \<Rightarrow> string option" where
  "success_content r =
     (case r of
        JObj kvs \<Rightarrow>
          (case map_of kvs ''choices'' of
             Some (JArr (JObj choice # others)) \<Rightarrow>
               (case map_of choice ''message'' of
                  Some (JObj message) \<Rightarrow>
                    (case map_of message ''content'' of Some (JStr s) \<Rightarrow> Some s | _ \<Rightarrow> None)
                | _ \<Rightarrow> None)
           | _ \<Rightarrow> None)
      | _ \<Rightarrow> None)"

text \<open>
  The example deployment with other key groups: in each group one key whose call returns
  a completion long enough, and the key whose call returns a completion with the content
  \<^verbatim>\<open>null\<close>.
\<close>

definition example_world_mixed :: world where
  "example_world_mixed =
     example_world\<lparr>keys := \<lparr>group1 = [''AIzaSy-key-four'', ''AIzaSy-key-five''],
                              group2 = [''AIzaSy-key-two'', ''AIzaSy-key-five'']\<rparr>\<rparr>"

text \<open>
  A monitor whose \<^verbatim>\<open>response_times\<close> and \<^verbatim>\<open>error_details\<close> hold 100 entries each,
  the oldest first.
\<close>

definition example_full_monitor :: RequestMonitor where
  "example_full_monitor =
     (new_monitor 2 0)
       \<lparr>response_times := map real [0..<100],
        error_details :=
          map (\<lambda>i. \<lparr>err_timestamp = i, err_api_key = ''AIzaSy-k...'', err_status_code = 500,
                     err_error = ''old'', err_response_time = 1\<rparr>) [0..<100]\<rparr>"

section \<open>Facts about the arbitration loops\<close>

lemma candidates_Nil: "candidates m [] = []"
  by (simp add: candidates_def)

lemma candidates_Cons:
  "candidates m (r # rs) =
     (case valid_candidate m r of Inr (Some v) \<Rightarrow> [v] | _ \<Rightarrow> []) @ candidates m rs"
  by (simp add: candidates_def)

lemma collect_valid_candidates:
  "\<forall>r\<in>set rs. \<not> isl (valid_candidate m r) \<Longrightarrow>
   collect_valid m rs acc = Inr (acc @ candidates m rs)"
proof (induction rs arbitrary: acc)
  case Nil
  then show ?case by (simp add: candidates_Nil)
next
  case (Cons r rs)
  from Cons.prems obtain c where c: "valid_candidate m r = Inr c"
    by (cases "valid_candidate m r") auto
  from Cons.prems have rest: "\<forall>r\<in>set rs. \<not> isl (valid_candidate m r)" by simp
  show ?case
    by (cases c) (simp_all add: c bind_exn_def Cons.IH [OF rest] candidates_Cons)
qed

lemma fold_max_ge_init: "a \<le> fold max xs (a::nat)"
proof (induction xs arbitrary: a)
  case Nil show ?case by simp
next
  case (Cons x xs)
  have "a \<le> max x a" by simp
  also have "\<dots> \<le> fold max xs (max x a)" by (rule Cons.IH)
  finally show ?case by simp
qed

lemma fold_max_ge_elem: "x \<in> set xs \<Longrightarrow> x \<le> fold max xs (a::nat)"
proof (induction xs arbitrary: a)
  case Nil then show ?case by simp
next
  case (Cons y ys)
  show ?case
  proof (cases "x = y")
    case True
    have "x \<le> max y a" using True by simp
    also have "\<dots> \<le> fold max ys (max y a)" by (rule fold_max_ge_init)
    finally show ?thesis by simp
  next
    case False
    with Cons.prems have "x \<in> set ys" by simp
    then show ?thesis using Cons.IH by simp
  qed
qed

lemma no_remaining_tasks:
  "filter (\<lambda>t. \<not> done_at (fold max (map finish tasks) 0) t) tasks = []"
  by (auto simp: filter_empty_conv done_at_def intro: fold_max_ge_elem)

lemma find_append_split:
  "List.find P (xs @ ys) = (case List.find P xs of None \<Rightarrow> List.find P ys | Some x \<Rightarrow> Some x)"
  by (induction xs) auto

lemma py_max_by_first_max:
  "\<forall>u\<in>set p1. f u < f best \<Longrightarrow> \<forall>u\<in>set p2. f u \<le> f best \<Longrightarrow>
   List.find (\<lambda>x. \<forall>u\<in>set (p1 @ best # p2 @ xs). f u \<le> f x) (p1 @ best # p2 @ xs)
     = Some (py_max_by f best xs)"
proof (induction xs arbitrary: best p1 p2)
  case Nil
  have "List.find (\<lambda>x. \<forall>u\<in>set (p1 @ best # p2). f u \<le> f x) p1 = None"
    using Nil.prems(1) by (auto simp: find_None_iff)
  moreover have "\<forall>u\<in>set (p1 @ best # p2). f u \<le> f best"
    using Nil.prems by (auto intro: less_imp_le)
  ultimately show ?case by (simp add: find_append_split)
next
  case (Cons x xs)
  show ?case
  proof (cases "f best < f x")
    case True
    have a: "\<forall>u\<in>set (p1 @ best # p2). f u < f x"
      using Cons.prems True by (auto intro: less_trans le_less_trans)
    have "List.find (\<lambda>y. \<forall>u\<in>set ((p1 @ best # p2) @ x # [] @ xs). f u \<le> f y)
            ((p1 @ best # p2) @ x # [] @ xs) = Some (py_max_by f x xs)"
      by (rule Cons.IH [OF a]) simp
    then show ?thesis using True by simp
  next
    case False
    have b: "\<forall>u\<in>set (p2 @ [x]). f u \<le> f best"
      using Cons.prems False by auto
    have "List.find (\<lambda>y. \<forall>u\<in>set (p1 @ best # (p2 @ [x]) @ xs). f u \<le> f y)
            (p1 @ best # (p2 @ [x]) @ xs) = Some (py_max_by f best xs)"
      by (rule Cons.IH [OF Cons.prems(1) b])
    then show ?thesis using False by simp
  qed
qed

lemma py_max_by_find:
  "List.find (\<lambda>x. \<forall>u\<in>set (v # vs). f u \<le> f x) (v # vs) = Some (py_max_by f v vs)"
  using py_max_by_first_max [of "[]" f v "[]" vs] by simp

lemma arbitrate_candidates:
  assumes "\<forall>r\<in>set (map outcome tasks). \<not> isl (valid_candidate m r)"
  shows "arbitrate m tasks =
           Inr \<lparr>best_response =
                  (case candidates m (map outcome (as_completed tasks)) of
                     [] \<Rightarrow> None | v # vs \<Rightarrow> Some (py_max_by token_count v vs)),
                cancelled = [],
                decided_at = fold max (map finish tasks) 0\<rparr>"
proof -
  have "set (as_completed tasks) = set tasks"
    by (simp add: as_completed_def)
  then have "\<forall>r\<in>set (map outcome (as_completed tasks)). \<not> isl (valid_candidate m r)"
    using assms by simp
  then have "collect_valid m (map outcome (as_completed tasks)) []
               = Inr (candidates m (map outcome (as_completed tasks)))"
    using collect_valid_candidates [of "map outcome (as_completed tasks)" m "[]"] by simp
  then show ?thesis
    by (simp add: arbitrate_def bind_exn_def no_remaining_tasks Let_def)
qed

lemma valid_candidate_SomeD:
  assumes "valid_candidate m r = Inr (Some v)"
  shows "(\<exists>kvs. r = JObj kvs) \<and> result v = r \<and> py_len (content v) = Inr (token_count v)
         \<and> m \<le> int (token_count v)"
proof -
  from assms obtain kvs where r: "r = JObj kvs"
    by (cases r) (auto simp: valid_candidate_def bind_exn_def split: if_splits)
  from assms show ?thesis
    unfolding r valid_candidate_def bind_exn_def
    by (auto split: if_splits sum.splits)
qed

lemma candidates_sound:
  "v \<in> set (candidates m rs) \<Longrightarrow> \<exists>r\<in>set rs. valid_candidate m r = Inr (Some v)"
  by (induction rs) (auto simp: candidates_Nil candidates_Cons split: sum.splits option.splits)

lemma stream_response_content_dict:
  "\<exists>evs err. stream_response_content now (JObj kvs) c = Inr (evs, err)"
  by (simp add: stream_response_content_def bind_exn_def)

lemma arbitrate_never_waits:
  "arbitrate m tasks =
     bind_exn (collect_valid m (map outcome (as_completed tasks)) [])
       (\<lambda>valid_responses.
          Inr \<lparr>best_response =
                 (case valid_responses of
                    [] \<Rightarrow> None
                  | v # vs \<Rightarrow> Some (py_max_by token_count v vs)),
               cancelled = [],
               decided_at = fold max (map finish tasks) 0\<rparr>)"
  by (simp add: arbitrate_def no_remaining_tasks Let_def)

lemma no_valid_candidate_503:
  assumes "current_keys = valid_keys (get_current_api_keys (keys w) idx)"
    and "current_keys \<noteq> []"
    and "arrivals = map outcome (as_completed (create_tasks w request_data current_keys))"
    and "\<forall>r\<in>set arrivals. \<not> isl (valid_candidate (min_response_length (server w)) r)"
    and "candidates (min_response_length (server w)) arrivals = []"
  shows "response (proxy_completion w idx request_data) = HTTPException 503 AllUpstreamFailed"
    and "response (generate_fake_stream_response w idx request_data)
           = HTTPException 503 AllUpstreamFailed"
proof -
  let ?m = "min_response_length (server w)"
  let ?tasks = "create_tasks w request_data current_keys"
  have "set (as_completed ?tasks) = set ?tasks"
    by (simp add: as_completed_def)
  with assms(4)
  have "\<forall>r\<in>set (map outcome ?tasks). \<not> isl (valid_candidate ?m r)"
    unfolding assms(3) by simp
  note arbitrate_candidates [OF this]
  moreover have "candidates ?m (map outcome (as_completed ?tasks)) = []"
    using assms(3,5) by simp
  ultimately
  have arb: "arbitrate ?m ?tasks =
               Inr \<lparr>best_response = None, cancelled = [],
                    decided_at = fold max (map finish ?tasks) 0\<rparr>"
    by simp
  show "response (proxy_completion w idx request_data) = HTTPException 503 AllUpstreamFailed"
    using assms(1,2) arb by (simp add: proxy_completion_def Let_def)
  show "response (generate_fake_stream_response w idx request_data)
          = HTTPException 503 AllUpstreamFailed"
    using assms(1,2) arb by (simp add: generate_fake_stream_response_def Let_def)
qed

lemma valid_candidate_success:
  assumes "success_content r = Some s"
  shows "valid_candidate m r
           = Inr (if m \<le> int (length s)
                  then Some \<lparr>result = r, content = JStr s, token_count = length s\<rparr>
                  else None)"
proof -
  from assms obtain kvs choice others message where r: "r = JObj kvs"
    and c: "map_of kvs ''choices'' = Some (JArr (JObj choice # others))"
    and m: "map_of choice ''message'' = Some (JObj message)"
    and s: "map_of message ''content'' = Some (JStr s)"
    by (auto simp: success_content_def split: json.splits option.splits list.splits)
  from c have "kvs \<noteq> []" by auto
  then show ?thesis
    by (simp add: r c m s valid_candidate_def bind_exn_def)
qed

section \<open>Facts about the stream emitter\<close>

lemma concat_slices:
  "0 < cs \<Longrightarrow> concat (map (\<lambda>i. take cs (drop i s)) (range_step i (length s) cs)) = drop i s"
proof (induction i "length s" cs rule: range_step.induct)
  case (1 i step)
  show ?case
  proof (cases "length s \<le> i")
    case True
    then show ?thesis by (simp add: range_step.simps [of i])
  next
    case False
    with 1 have "concat (map (\<lambda>i. take step (drop i s)) (range_step (i + step) (length s) step))
                   = drop (i + step) s"
      by simp
    moreover have "take step (drop i s) @ drop (i + step) s = drop i s"
      by (metis add.commute append_take_drop_id drop_drop)
    ultimately show ?thesis using False 1 by (simp add: range_step.simps [of i])
  qed
qed

lemma emit_chunks_string:
  "emit_chunks rid cr mo (JStr s) cs idxs
     = (map (\<lambda>i. Data (chunk_data rid cr mo (JStr (take cs (drop i s))))) idxs, None)"
  by (induction idxs) simp_all

lemma event_content_chunk: "event_content (Data (chunk_data rid cr mo (JStr t))) = t"
  by (simp add: event_content_def event_delta_def event_choice_def chunk_data_def)

lemma event_content_final: "event_content (Data (final_data rid cr mo)) = []"
  by (simp add: event_content_def event_delta_def event_choice_def final_data_def)

lemma event_content_Done: "event_content Done = []"
  by (simp add: event_content_def event_delta_def event_choice_def)

lemma concat_event_content:
  "concat (map event_content (map (\<lambda>t. Data (chunk_data rid cr mo (JStr t))) texts)) = concat texts"
  by (induction texts) (simp_all add: event_content_chunk)

lemma generate_stream_string:
  "generate_stream rid cr mo (JStr s)
     = (map (\<lambda>t. Data (chunk_data rid cr mo (JStr t)))
          (map (\<lambda>i. take (max 1 (length s div 50)) (drop i s))
             (range_step 0 (length s) (max 1 (length s div 50))))
        @ [Data (final_data rid cr mo), Done], None)"
  by (simp add: generate_stream_def emit_chunks_string Let_def comp_def)

lemma stream_response_content_dict_eq:
  "stream_response_content now (JObj kvs) c
     = Inr (generate_stream
              (case map_of kvs ''id'' of None \<Rightarrow> JStr (''chatcmpl-'' @ py_str now) | Some v \<Rightarrow> v)
              (case map_of kvs ''created'' of None \<Rightarrow> JNum now | Some v \<Rightarrow> v)
              (case map_of kvs ''model'' of None \<Rightarrow> JStr ''gemini-2.5-flash'' | Some v \<Rightarrow> v)
              c)"
  by (simp only: stream_response_content_def bind_exn_def py_get.simps sum.case)

section \<open>Facts about the rotation\<close>

lemma get_current_api_keys_flip:
  "logged_group (get_current_api_keys ks i) = (if i = 0 then Group1 else Group2)"
  "valid_keys (get_current_api_keys ks i)
     = filter usable_key (if i = 0 then group1 ks else group2 ks)"
  "next_index (get_current_api_keys ks i) = (if i = 0 then 1 else 0)"
  by (simp_all add: get_current_api_keys_def)

lemma length_selections: "length (selections cfgs i) = length cfgs"
  by (induction cfgs arbitrary: i) (simp_all add: Let_def)

lemma selections_nth:
  "k < length cfgs \<Longrightarrow>
   logged_group (selections cfgs i ! k) = group_at i k
   \<and> valid_keys (selections cfgs i ! k) = filter usable_key (keys_of (group_at i k) (cfgs ! k))
   \<and> next_index (selections cfgs i ! k) = (if group_at i k = Group1 then 1 else 0)"
proof (induction cfgs arbitrary: i k)
  case Nil
  then show ?case by simp
next
  case (Cons ks rest)
  show ?case
  proof (cases k)
    case 0
    then show ?thesis
      by (simp add: Let_def get_current_api_keys_flip group_at_def keys_of_def)
  next
    case (Suc j)
    with Cons.prems have j: "j < length rest" by simp
    have flip: "group_at (next_index (get_current_api_keys ks i)) j = group_at i (Suc j)"
      by (simp add: group_at_def get_current_api_keys_flip)
    from Cons.IH [OF j, of "next_index (get_current_api_keys ks i)"] flip
    show ?thesis using Suc by (simp add: Let_def)
  qed
qed

section \<open>Facts about one upstream call\<close>

lemma update_fresh: "k \<notin> fst ` set al \<Longrightarrow> AList.update k v al = al @ [(k, v)]"
  by (induction al) auto

lemma clean_request_filter:
  "distinct (map fst (cleaned @ items)) \<Longrightarrow>
   clean_request items cleaned = cleaned @ filter allowed items"
proof (induction items arbitrary: cleaned)
  case Nil
  then show ?case by simp
next
  case (Cons item items)
  obtain key val where item: "item = (key, val)" by (cases item)
  from Cons.prems have fresh: "key \<notin> fst ` set cleaned"
    by (auto simp: item)
  show ?case
  proof (cases "allowed item")
    case True
    from Cons.prems have "distinct (map fst ((cleaned @ [(key, val)]) @ items))"
      by (simp add: item)
    from Cons.IH [OF this] True show ?thesis
      by (simp add: item allowed_def update_fresh [OF fresh])
  next
    case False
    from Cons.prems have "distinct (map fst (cleaned @ items))"
      by (simp add: item)
    from Cons.IH [OF this] False show ?thesis
      by (simp add: item allowed_def)
  qed
qed

lemma map_of_filter_key:
  "map_of (filter (\<lambda>(k, v). P k) xs) k = (if P k then map_of xs k else None)"
  by (induction xs) auto

lemma allowed_eq: "allowed = (\<lambda>(name, val). name \<in> set supported_params)"
  by (rule ext) (simp add: allowed_def split: prod.splits)

lemma send_single_request_cases:
  "send_single_request w key rd =
     (case snd (upstream w (upstream_request (base_url w) (request_timeout (server w)) key rd)) of
        Raises e \<Rightarrow> JNull
      | Replies status text \<Rightarrow>
          if \<not> is_success status then JNull
          else (case from_event_stream (json_loads w) (clock w) text of
                  Inl e \<Rightarrow> JNull
                | Inr (Some completion) \<Rightarrow> completion
                | Inr None \<Rightarrow> (case json_loads w text of None \<Rightarrow> JNull | Some j \<Rightarrow> j)))"
  by (simp add: send_single_request_def try_request_def bind_exn_def Let_def
      split: upstream_reply.splits sum.splits option.splits)

lemma from_event_stream_Some:
  "from_event_stream loads now text = Inr (Some c) \<Longrightarrow>
   sublist ''data:'' text \<and>
   (\<exists>st. sse_lines loads
           \<lparr>sse_content = [], final_id = JStr [], final_model = JStr [], final_created = JNum now\<rparr>
           (split_on (CHR 0x0A) (py_strip text)) = Inr st
         \<and> sse_content st \<noteq> [] \<and> c = sse_completion now st)"
  by (auto simp: from_event_stream_def bind_exn_def split: if_splits sum.splits)

section \<open>Facts about the authorization check\<close>

lemma split_on_nonempty: "split_on c s \<noteq> []"
  by (induction s) (auto split: list.splits)

lemma split_on_bearer:
  "prefix ''Bearer '' header \<Longrightarrow>
   \<exists>rest. header = ''Bearer '' @ rest \<and>
     py_index (split_on CHR '' '' header) 1 = Inr (hd (split_on CHR '' '' rest))"
proof -
  assume "prefix ''Bearer '' header"
  then obtain rest where h: "header = ''Bearer '' @ rest"
    by (auto simp: prefix_def)
  obtain p ps where "split_on CHR '' '' rest = p # ps"
    using split_on_nonempty [of "CHR '' ''" rest] by (cases "split_on CHR '' '' rest") auto
  then have "py_index (split_on CHR '' '' header) 1 = Inr (hd (split_on CHR '' '' rest))"
    by (simp add: h py_index_def)
  with h show ?thesis by blast
qed

lemma unauthorized_no_upstream:
  assumes "api_key_header = None
           \<or> (\<exists>header. api_key_header = Some header
                \<and> (\<not> prefix ''Bearer '' header
                   \<or> hd (split_on CHR '' '' (drop 7 header)) = []
                   \<or> hd (split_on CHR '' '' (drop 7 header)) \<noteq> api_key (server w)))"
  shows "\<exists>d. chat_completions_proxy w idx api_key_header stream request_data
           = \<lparr>response = HTTPException 401 d, upstream_calls = [], group_index = idx\<rparr>"
proof (cases api_key_header)
  case None
  then show ?thesis by (simp add: chat_completions_proxy_def)
next
  case (Some header)
  show ?thesis
  proof (cases "prefix ''Bearer '' header")
    case False
    then show ?thesis using Some by (simp add: chat_completions_proxy_def)
  next
    case True
    from split_on_bearer [OF True] obtain rest where h: "header = ''Bearer '' @ rest"
      and idx: "py_index (split_on CHR '' '' header) 1 = Inr (hd (split_on CHR '' '' rest))"
      by blast
    have "drop 7 header = rest" by (simp add: h)
    with assms Some True
    have "hd (split_on CHR '' '' rest) = [] \<or> hd (split_on CHR '' '' rest) \<noteq> api_key (server w)"
      by auto
    then show ?thesis
      using Some True idx h by (auto simp: chat_completions_proxy_def)
  qed
qed

lemma authorized_call_rotates:
  assumes "prefix ''Bearer '' header"
    and "hd (split_on CHR '' '' (drop 7 header)) = api_key (server w)"
    and "api_key (server w) \<noteq> []"
  shows "group_index (chat_completions_proxy w idx (Some header) stream request_data)
           = next_index (get_current_api_keys (keys w) idx)
         \<and> upstream_calls (chat_completions_proxy w idx (Some header) stream request_data)
           = calls_sent w request_data (valid_keys (get_current_api_keys (keys w) idx))"
proof -
  from split_on_bearer [OF assms(1)] obtain rest where h: "header = ''Bearer '' @ rest"
    and i: "py_index (split_on CHR '' '' header) 1 = Inr (hd (split_on CHR '' '' rest))"
    by blast
  have "drop 7 header = rest" by (simp add: h)
  with assms(2) have k: "hd (split_on CHR '' '' rest) = api_key (server w)" by simp
  have "chat_completions_proxy w idx (Some header) stream request_data
          = (if stream then generate_fake_stream_response w idx request_data
             else proxy_completion w idx request_data)"
    using assms(1,3) i k h by (simp add: chat_completions_proxy_def)
  then show ?thesis
    by (simp add: proxy_completion_def generate_fake_stream_response_def Let_def calls_sent_def)
qed

section \<open>The concrete deployment, evaluated\<close>

lemma no_data_marker:
  "\<not> sublist ''data:'' ''short''" "\<not> sublist ''data:'' ''long''"
  "\<not> sublist ''data:'' ''same''" "\<not> sublist ''data:'' ''null''"
  "\<not> sublist ''data:'' ''other''" "\<not> sublist ''data:'' ''<html>''"
  by (simp_all add: sublist_Cons_right)

lemma example_try:
  "try_request example_loads t (Replies 200 ''short'') = Inr (completion_with (JStr ''tiny''))"
  "try_request example_loads t (Replies 200 ''long'')
     = Inr (completion_with (JStr ''a longer answer''))"
  "try_request example_loads t (Replies 200 ''same'')
     = Inr (completion_with (JStr ''another answer.''))"
  "try_request example_loads t (Replies 200 ''null'') = Inr (completion_with JNull)"
  "try_request example_loads t (Raises RequestError) = Inl RequestError"
  by (simp_all add: try_request_def from_event_stream_def is_success_def example_loads_def
      no_data_marker bind_exn_def)

lemma example_send:
  "send_single_request example_world ''AIzaSy-key-one'' rd
     = completion_with (JStr ''another answer.'')"
  "send_single_request example_world ''AIzaSy-key-two'' rd = completion_with (JStr ''tiny'')"
  "send_single_request example_world ''AIzaSy-key-three'' rd = JNull"
  "send_single_request example_world ''AIzaSy-key-four'' rd
     = completion_with (JStr ''a longer answer'')"
  "send_single_request example_world ''AIzaSy-key-five'' rd = completion_with JNull"
  by (simp_all add: send_single_request_def example_world_def upstream_request_def
      example_upstream_def example_try)

lemma example_finish:
  "fst (upstream example_world (upstream_request b t ''AIzaSy-key-one'' rd)) = 40"
  "fst (upstream example_world (upstream_request b t ''AIzaSy-key-two'' rd)) = 1"
  "fst (upstream example_world (upstream_request b t ''AIzaSy-key-three'' rd)) = 2"
  "fst (upstream example_world (upstream_request b t ''AIzaSy-key-four'' rd)) = 30"
  "fst (upstream example_world (upstream_request b t ''AIzaSy-key-five'' rd)) = 5"
  by (simp_all add: example_world_def upstream_request_def example_upstream_def)

lemma example_keys:
  "valid_keys (get_current_api_keys (keys example_world) 0)
     = [''AIzaSy-key-one'', ''AIzaSy-key-two'', ''AIzaSy-key-three'', ''AIzaSy-key-four'']"
  "valid_keys (get_current_api_keys (keys example_world) 1) = [''AIzaSy-key-five'']"
  by (simp_all add: get_current_api_keys_def example_world_def usable_key_def)

lemma example_arrivals:
  "map outcome (as_completed (create_tasks example_world rd
      [''AIzaSy-key-one'', ''AIzaSy-key-two'', ''AIzaSy-key-three'', ''AIzaSy-key-four'']))
   = [completion_with (JStr ''tiny''), JNull, completion_with (JStr ''a longer answer''),
      completion_with (JStr ''another answer.'')]"
  by (simp add: create_tasks_def as_completed_def example_send example_finish)

lemma valid_candidate_completion:
  "valid_candidate m (completion_with (JStr s))
     = Inr (if m \<le> int (length s) then Some (example_candidate s) else None)"
  by (simp add: valid_candidate_def completion_with_def bind_exn_def example_candidate_def)

lemma valid_candidate_None: "valid_candidate m JNull = Inr None"
  by (simp add: valid_candidate_def)

lemma example_min: "min_response_length (server example_world) = 3"
  by (simp add: example_world_def)

lemma example_authorized:
  "chat_completions_proxy example_world idx (Some ''Bearer 123'') stream rd
     = (if stream then generate_fake_stream_response example_world idx rd
        else proxy_completion example_world idx rd)"
  by (simp add: chat_completions_proxy_def py_index_def example_world_def)

lemma valid_candidate_null_content:
  "valid_candidate m (completion_with JNull) = Inl TypeError"
  by (simp add: valid_candidate_def completion_with_def bind_exn_def)

lemma example_tasks_group2:
  "create_tasks example_world rd [''AIzaSy-key-five'']
     = [\<lparr>task_key = ''AIzaSy-key-five'', finish = 5, outcome = completion_with JNull\<rparr>]"
  by (simp add: create_tasks_def example_send example_finish)

lemma example_tasks_group1:
  "create_tasks example_world rd
     [''AIzaSy-key-one'', ''AIzaSy-key-two'', ''AIzaSy-key-three'', ''AIzaSy-key-four'']
     = [\<lparr>task_key = ''AIzaSy-key-one'', finish = 40,
          outcome = completion_with (JStr ''another answer.'')\<rparr>,
        \<lparr>task_key = ''AIzaSy-key-two'', finish = 1, outcome = completion_with (JStr ''tiny'')\<rparr>,
        \<lparr>task_key = ''AIzaSy-key-three'', finish = 2, outcome = JNull\<rparr>,
        \<lparr>task_key = ''AIzaSy-key-four'', finish = 30,
          outcome = completion_with (JStr ''a longer answer'')\<rparr>]"
  by (simp add: create_tasks_def example_send example_finish)

lemma example_arbitrate_group2:
  "arbitrate m [\<lparr>task_key = ''AIzaSy-key-five'', finish = 5, outcome = completion_with JNull\<rparr>]
     = Inl TypeError"
  by (simp add: arbitrate_never_waits as_completed_def valid_candidate_null_content bind_exn_def)

lemma example_send_more:
  "send_single_request example_world ''AIzaSy-key-six'' rd = JObj [(''error'', JStr ''quota'')]"
  "send_single_request example_world ''AIzaSy-key-seven'' rd = JNull"
  "send_single_request example_world ''AIzaSy-key-zero'' rd = JNull"
  by (simp_all add: send_single_request_def example_world_def upstream_request_def
      example_upstream_def try_request_def from_event_stream_def is_success_def
      example_loads_def no_data_marker bind_exn_def)

lemma example_replies:
  "snd (upstream example_world (upstream_request b t ''AIzaSy-key-three'' rd)) = Raises RequestError"
  "snd (upstream example_world (upstream_request b t ''AIzaSy-key-zero'' rd)) = Replies 500 []"
  "snd (upstream example_world (upstream_request b t ''AIzaSy-key-seven'' rd))
     = Replies 200 ''<html>''"
  "snd (upstream example_world (upstream_request b t ''AIzaSy-key-six'' rd)) = Replies 200 ''other''"
  by (simp_all add: example_world_def upstream_request_def example_upstream_def)

lemma example_trailing_words:
  "chat_completions_proxy example_world idx (Some ''Bearer 123 zzz'') stream rd
     = (if stream then generate_fake_stream_response example_world idx rd
        else proxy_completion example_world idx rd)"
  by (simp add: chat_completions_proxy_def py_index_def example_world_def)

lemma example_proxy_group1:
  "proxy_completion example_world 0 rd
     = \<lparr>response = JSONResponse (completion_with (JStr ''a longer answer'')),
        upstream_calls = calls_sent example_world rd
           [''AIzaSy-key-one'', ''AIzaSy-key-two'', ''AIzaSy-key-three'', ''AIzaSy-key-four''],
        group_index = 1\<rparr>"
  by (simp add: proxy_completion_def example_keys get_current_api_keys_flip(3) Let_def
      example_min example_tasks_group1 as_completed_def arbitrate_never_waits
      valid_candidate_completion valid_candidate_None bind_exn_def example_candidate_def)

lemma success_content_completion: "success_content (completion_with (JStr s)) = Some s"
  by (simp add: success_content_def completion_with_def)

lemma mixed_send:
  "send_single_request example_world_mixed key rd = send_single_request example_world key rd"
  by (simp add: send_single_request_def example_world_mixed_def)

lemma mixed_finish:
  "fst (upstream example_world_mixed call) = fst (upstream example_world call)"
  by (simp add: example_world_mixed_def)

lemma mixed_keys:
  "valid_keys (get_current_api_keys (keys example_world_mixed) 0)
     = [''AIzaSy-key-four'', ''AIzaSy-key-five'']"
  "valid_keys (get_current_api_keys (keys example_world_mixed) 1)
     = [''AIzaSy-key-two'', ''AIzaSy-key-five'']"
  by (simp_all add: get_current_api_keys_def example_world_mixed_def usable_key_def)

lemma mixed_tasks:
  "create_tasks example_world_mixed rd [''AIzaSy-key-four'', ''AIzaSy-key-five'']
     = [\<lparr>task_key = ''AIzaSy-key-four'', finish = 30,
          outcome = completion_with (JStr ''a longer answer'')\<rparr>,
        \<lparr>task_key = ''AIzaSy-key-five'', finish = 5, outcome = completion_with JNull\<rparr>]"
  "create_tasks example_world_mixed rd [''AIzaSy-key-two'', ''AIzaSy-key-five'']
     = [\<lparr>task_key = ''AIzaSy-key-two'', finish = 1, outcome = completion_with (JStr ''tiny'')\<rparr>,
        \<lparr>task_key = ''AIzaSy-key-five'', finish = 5, outcome = completion_with JNull\<rparr>]"
  by (simp_all add: create_tasks_def mixed_send mixed_finish example_send example_finish)

lemma mixed_min: "min_response_length (server example_world_mixed) = 3"
  by (simp add: example_world_mixed_def example_world_def)

lemma mixed_authorized:
  "chat_completions_proxy example_world_mixed idx (Some ''Bearer 123'') False rd
     = proxy_completion example_world_mixed idx rd"
  by (simp add: chat_completions_proxy_def py_index_def example_world_mixed_def example_world_def)

lemma mixed_arbitrate:
  "arbitrate 3 [\<lparr>task_key = ''AIzaSy-key-four'', finish = 30,
                  outcome = completion_with (JStr ''a longer answer'')\<rparr>,
                \<lparr>task_key = ''AIzaSy-key-five'', finish = 5, outcome = completion_with JNull\<rparr>]
     = Inl TypeError"
  "arbitrate 3 [\<lparr>task_key = ''AIzaSy-key-two'', finish = Suc 0,
                  outcome = completion_with (JStr ''tiny'')\<rparr>,
                \<lparr>task_key = ''AIzaSy-key-five'', finish = 5, outcome = completion_with JNull\<rparr>]
     = Inl TypeError"
  by (simp_all add: arbitrate_never_waits as_completed_def valid_candidate_null_content
      valid_candidate_completion bind_exn_def)

section \<open>Facts about the monitor\<close>

lemma length_deque_append: "length xs \<le> n \<Longrightarrow> length (deque_append n xs x) \<le> n"
  by (auto simp: deque_append_def Let_def)

lemma deque_append_full: "length xs = n \<Longrightarrow> 0 < n \<Longrightarrow> deque_append n xs x = tl xs @ [x]"
  by (cases xs) (auto simp: deque_append_def Let_def)

lemma deque_append_room: "length xs < n \<Longrightarrow> deque_append n xs x = xs @ [x]"
  by (auto simp: deque_append_def Let_def)

lemma add_log_capacity:
  "within_capacity m \<Longrightarrow> same_capacity m (state_after (add_log m now level msg details))"
  by (simp add: add_log_def with_lock_def Let_def same_capacity_def within_capacity_def
      length_deque_append)

lemma record_request_capacity:
  assumes "within_capacity m"
  shows "same_capacity m
           (state_after (record_request m now key status_code response_time response_length
              min_length error_msg))"
  using assms
  by (simp add: record_request_def with_lock_def add_log_def Let_def same_capacity_def
      within_capacity_def length_deque_append split: option.splits)

lemma reading_capacity:
  "within_capacity m \<Longrightarrow> same_capacity m (state_after (get_stats m))"
  "within_capacity m \<Longrightarrow> same_capacity m (state_after (get_recent_logs m limit))"
  "within_capacity m \<Longrightarrow> same_capacity m (state_after (get_error_details m limit))"
  by (simp_all add: get_stats_def get_recent_logs_def get_error_details_def with_lock_def
      same_capacity_def within_capacity_def)

lemma reset_stats_capacity:
  "within_capacity m \<Longrightarrow> same_capacity m (state_after (reset_stats m now))"
  by (simp add: reset_stats_def with_lock_def same_capacity_def within_capacity_def)

lemma apply_op_capacity:
  "within_capacity m \<Longrightarrow> same_capacity m (apply_op m timed_op)"
proof -
  assume wc: "within_capacity m"
  obtain now op where t: "timed_op = (now, op)" by (cases timed_op)
  show ?thesis
    unfolding t
    by (cases op)
       (simp_all add: wc add_log_capacity record_request_capacity reading_capacity
          reset_stats_capacity)
qed

lemma run_ops_capacity:
  "within_capacity m \<Longrightarrow> same_capacity m (run_ops m ops)"
proof (induction ops arbitrary: m)
  case Nil
  then show ?case by (simp add: same_capacity_def)
next
  case (Cons op ops)
  from apply_op_capacity [OF Cons.prems]
  have a: "same_capacity m (apply_op m op)" .
  then have "within_capacity (apply_op m op)" by (simp add: same_capacity_def)
  from Cons.IH [OF this] a show ?case by (simp add: same_capacity_def)
qed

lemma new_monitor_capacity: "within_capacity (new_monitor capacity now)"
  by (simp add: new_monitor_def within_capacity_def)

lemma add_log_evicts:
  assumes "\<not> locked m" and "length (recent_logs m) = max_log_entries m"
    and "0 < max_log_entries m"
  shows "add_log m now level msg details
           = Returned ()
               (m\<lparr>recent_logs := tl (recent_logs m)
                     @ [\<lparr>log_timestamp = now, log_level = level, log_message = msg,
                          log_details = (case details of None \<Rightarrow> [] | Some d \<Rightarrow> d)\<rparr>]\<rparr>)"
  using assms by (simp add: add_log_def with_lock_def Let_def deque_append_full)

lemma record_request_never_returns:
  "\<exists>m'. record_request m now key status_code response_time response_length min_length error_msg
          = Blocked m'"
  by (simp add: record_request_def with_lock_def add_log_def Let_def split: option.splits)

lemma example_run:
  "run_ops (new_monitor 2 0) example_ops
     = (new_monitor 2 0)
         \<lparr>total_requests := 1, failed_requests := 1, status_codes := [(502, 1)],
          api_key_usage := [(''AIzaSy-key-one'', 1)],
          api_key_failures := [(''AIzaSy-key-one'', 1)],
          response_times := [3 / 2],
          recent_logs := [\<lparr>log_timestamp = 2, log_level = ''INFO'', log_message = Message ''b'',
                            log_details = []\<rparr>,
                          \<lparr>log_timestamp = 3, log_level = ''INFO'', log_message = Message ''c'',
                            log_details = []\<rparr>],
          error_details := [\<lparr>err_timestamp = 5, err_api_key = ''AIzaSy-k...'',
                              err_status_code = 502, err_error = ''bad gateway'',
                              err_response_time = 3 / 2\<rparr>],
          locked := True\<rparr>"
  by (simp add: example_ops_def new_monitor_def add_log_def get_stats_def record_request_def
      with_lock_def Let_def deque_append_def bump_def key_prefix_def)

lemma record_request_response_times:
  assumes "\<not> locked m"
    and "\<not> (200 \<le> status_code \<and> status_code < 300 \<and> 0 < response_length
            \<and> response_length < min_length)"
  shows "response_times (state_after (record_request m now key status_code response_time
            response_length min_length error_msg))
           = deque_append 100 (response_times m) response_time"
  using assms
  by (auto simp: record_request_def with_lock_def add_log_def Let_def split: option.splits)

lemma record_request_error_details:
  assumes "\<not> locked m" and "\<not> (200 \<le> status_code \<and> status_code < 300)"
    and "error_msg = Some e" and "e \<noteq> []"
  shows "error_details (state_after (record_request m now key status_code response_time
            response_length min_length error_msg))
           = deque_append 100 (error_details m)
               \<lparr>err_timestamp = now, err_api_key = key_prefix key,
                err_status_code = status_code, err_error = e,
                err_response_time = response_time\<rparr>"
  using assms
  by (auto simp: record_request_def with_lock_def add_log_def Let_def)

lemma example_full:
  "\<not> locked example_full_monitor"
  "length (response_times example_full_monitor) = 100"
  "length (error_details example_full_monitor) = 100"
  by (simp_all add: example_full_monitor_def new_monitor_def)

lemma new_monitor_empty:
  "\<not> locked (new_monitor capacity now)"
  "response_times (new_monitor capacity now) = []"
  "error_details (new_monitor capacity now) = []"
  "recent_logs (new_monitor capacity now) = []"
  "max_log_entries (new_monitor capacity now) = capacity"
  by (simp_all add: new_monitor_def)

section \<open>Runs in which every result can be measured\<close>

text \<open>
  When the length check raises on none of the arrived results, both handlers answer with
  the first candidate of greatest length among the valid ones, in the order of arrival.
\<close>

lemma readable_run_returns_longest:
  assumes ks: "current_keys = valid_keys (get_current_api_keys (keys w) idx)"
    and arr: "arrivals = map outcome (as_completed (create_tasks w request_data current_keys))"
    and readable: "\<forall>r\<in>set arrivals. \<not> isl (valid_candidate (min_response_length (server w)) r)"
    and vs: "vs = candidates (min_response_length (server w)) arrivals"
    and some: "vs \<noteq> []"
  shows "\<exists>best.
           List.find (\<lambda>v. \<forall>u\<in>set vs. token_count u \<le> token_count v) vs = Some best
           \<and> py_len (content best) = Inr (token_count best)
           \<and> min_response_length (server w) \<le> int (token_count best)
           \<and> response (proxy_completion w idx request_data) = JSONResponse (result best)
           \<and> (\<exists>evs err.
                 stream_response_content (clock w) (result best) (content best) = Inr (evs, err)
                 \<and> response (generate_fake_stream_response w idx request_data)
                     = StreamingResponse evs err)"
proof -
  let ?m = "min_response_length (server w)"
  let ?tasks = "create_tasks w request_data current_keys"
  from some obtain v rest where vrest: "vs = v # rest" by (cases vs) auto
  define best where "best = py_max_by token_count v rest"
  have found: "List.find (\<lambda>x. \<forall>u\<in>set vs. token_count u \<le> token_count x) vs = Some best"
    unfolding vrest best_def by (rule py_max_by_find)
  then have "best \<in> set vs"
    by (auto simp: find_Some_iff)
  then obtain r where "r \<in> set arrivals" and r: "valid_candidate ?m r = Inr (Some best)"
    unfolding vs by (blast dest: candidates_sound)
  note facts = valid_candidate_SomeD [OF r]
  have "set (as_completed ?tasks) = set ?tasks"
    by (simp add: as_completed_def)
  with readable
  have "\<forall>r\<in>set (map outcome ?tasks). \<not> isl (valid_candidate ?m r)"
    unfolding arr by simp
  note arbitrate_candidates [OF this]
  moreover have "candidates ?m (map outcome (as_completed ?tasks)) = v # rest"
    using vs arr vrest by simp
  ultimately
  have arb: "arbitrate ?m ?tasks =
               Inr \<lparr>best_response = Some best, cancelled = [],
                    decided_at = fold max (map finish ?tasks) 0\<rparr>"
    by (simp add: best_def)
  have "arrivals \<noteq> []" using some vs by (auto simp: candidates_Nil)
  then have nonempty: "current_keys \<noteq> []"
    using arr by (auto simp: create_tasks_def as_completed_def)
  have json: "response (proxy_completion w idx request_data) = JSONResponse (result best)"
    using nonempty arb ks by (simp add: proxy_completion_def Let_def)
  from facts obtain kvs where kvs: "result best = JObj kvs" by auto
  obtain evs err where
    stream: "stream_response_content (clock w) (result best) (content best) = Inr (evs, err)"
    unfolding kvs using stream_response_content_dict by blast
  have "response (generate_fake_stream_response w idx request_data) = StreamingResponse evs err"
    using nonempty arb ks stream by (simp add: generate_fake_stream_response_def Let_def)
  with found facts json stream show ?thesis by blast
qed

lemma readable_run_example:
  "response (proxy_completion example_world 0 example_request)
     = JSONResponse (completion_with (JStr ''a longer answer''))
   \<and> (\<exists>evs err.
         stream_response_content (clock example_world)
           (completion_with (JStr ''a longer answer'')) (JStr ''a longer answer'') = Inr (evs, err)
         \<and> response (generate_fake_stream_response example_world 0 example_request)
             = StreamingResponse evs err)"
proof -
  let ?keys = "[''AIzaSy-key-one'', ''AIzaSy-key-two'', ''AIzaSy-key-three'', ''AIzaSy-key-four'']"
  let ?arrivals = "[completion_with (JStr ''tiny''), JNull,
                    completion_with (JStr ''a longer answer''),
                    completion_with (JStr ''another answer.'')]"
  let ?vs = "[example_candidate ''tiny'', example_candidate ''a longer answer'',
              example_candidate ''another answer.'']"
  have ks: "?keys = valid_keys (get_current_api_keys (keys example_world) 0)"
    by (simp add: example_keys)
  have arr: "?arrivals = map outcome (as_completed (create_tasks example_world example_request ?keys))"
    by (simp add: example_arrivals)
  have readable:
    "\<forall>r\<in>set ?arrivals. \<not> isl (valid_candidate (min_response_length (server example_world)) r)"
    by (simp add: valid_candidate_completion valid_candidate_None)
  have vs: "?vs = candidates (min_response_length (server example_world)) ?arrivals"
    by (simp add: candidates_def valid_candidate_completion valid_candidate_None example_min)
  have some: "?vs \<noteq> []" by simp
  have best: "List.find (\<lambda>v. \<forall>u\<in>set ?vs. token_count u \<le> token_count v) ?vs
                = Some (example_candidate ''a longer answer'')"
    by (simp add: example_candidate_def)
  from readable_run_returns_longest [OF ks arr readable vs some] best
  show ?thesis
    by (simp add: example_candidate_def)
qed

text \<open>
  When every arrived result is \<^verbatim>\<open>None\<close> or a completion with a string content, the length
  check raises on none, and the candidates are exactly the completions whose content has
  at least \<^verbatim>\<open>min_response_length\<close> characters, each with that length.
\<close>

lemma candidates_of_successes:
  assumes "\<forall>r\<in>set rs. r = JNull \<or> success_content r \<noteq> None"
  shows "(\<forall>r\<in>set rs. \<not> isl (valid_candidate m r))
         \<and> candidates m rs
             = concat (map (\<lambda>r. case success_content r of
                                   None \<Rightarrow> []
                                 | Some s \<Rightarrow>
                                     if m \<le> int (length s)
                                     then [\<lparr>result = r, content = JStr s, token_count = length s\<rparr>]
                                     else []) rs)"
  using assms
proof (induction rs)
  case Nil
  then show ?case by (simp add: candidates_Nil)
next
  case (Cons r rs)
  then have IH: "(\<forall>r\<in>set rs. \<not> isl (valid_candidate m r))
         \<and> candidates m rs
             = concat (map (\<lambda>r. case success_content r of
                                   None \<Rightarrow> []
                                 | Some s \<Rightarrow>
                                     if m \<le> int (length s)
                                     then [\<lparr>result = r, content = JStr s, token_count = length s\<rparr>]
                                     else []) rs)"
    by simp
  show ?case
  proof (cases "success_content r")
    case None
    with Cons.prems have "r = JNull" by simp
    then show ?thesis
      using IH by (simp add: candidates_Cons valid_candidate_None success_content_def)
  next
    case (Some s)
    from valid_candidate_success [OF Some, of m] IH Some show ?thesis
      by (simp add: candidates_Cons)
  qed
qed

section \<open>The longest valid response\<close>

text \<open>
  Claim C1 says that whenever some response is a success whose content has at least
  \<^verbatim>\<open>min_response_length\<close> characters, the longest such response is returned, the
  earliest among equals. The handlers do so when the length check can be carried out on
  every arrived result (\<open>readable_run_returns_longest\<close>). They do not in the two runs
  below. In the first the call of one key completes after 5 seconds with a 200 answer
  whose message content is \<^verbatim>\<open>null\<close>, and the call of the other after 30 seconds with a
  completion of 15 characters; in the second a completion of 4 characters arrives after
  1 second and the \<^verbatim>\<open>null\<close> content after 5. The minimum is 3, so each run has a valid
  success; \<^verbatim>\<open>len(message_content)\<close> raises \<^verbatim>\<open>TypeError\<close> on the \<^verbatim>\<open>null\<close> content
  inside the first loop, which catches \<^verbatim>\<open>CancelledError\<close> only, and the answer is 500.
\<close>

theorem valid_answer_lost_to_null_content:
  "map (\<lambda>t. (task_key t, finish t, outcome t))
     (as_completed (create_tasks example_world_mixed example_request
        (valid_keys (get_current_api_keys (keys example_world_mixed) 0))))
     = [(''AIzaSy-key-five'', 5, completion_with JNull),
        (''AIzaSy-key-four'', 30, completion_with (JStr ''a longer answer''))]
   \<and> map (\<lambda>t. (task_key t, finish t, outcome t))
     (as_completed (create_tasks example_world_mixed example_request
        (valid_keys (get_current_api_keys (keys example_world_mixed) 1))))
     = [(''AIzaSy-key-two'', 1, completion_with (JStr ''tiny'')),
        (''AIzaSy-key-five'', 5, completion_with JNull)]
   \<and> success_content (completion_with (JStr ''a longer answer'')) = Some ''a longer answer''
   \<and> success_content (completion_with (JStr ''tiny'')) = Some ''tiny''
   \<and> min_response_length (server example_world_mixed) \<le> int (length ''tiny'')
   \<and> min_response_length (server example_world_mixed) \<le> int (length ''a longer answer'')
   \<and> response (chat_completions_proxy example_world_mixed 0 (Some ''Bearer 123'') False
         example_request) = HTTPException 500 (InternalError TypeError)
   \<and> response (chat_completions_proxy example_world_mixed 1 (Some ''Bearer 123'') False
         example_request) = HTTPException 500 (InternalError TypeError)"
  by (simp add: mixed_keys mixed_tasks mixed_min mixed_authorized mixed_arbitrate
      as_completed_def success_content_completion proxy_completion_def Let_def)

section \<open>A run without a valid response\<close>

text \<open>
  Claim C2 says that a run in which no completed call is a valid completion ends in the
  503 answer. That holds when the length check can be carried out on every result
  (\<open>no_valid_candidate_503\<close>). It fails in the run below: the only call of the group
  completes with a 200 answer whose message content is \<^verbatim>\<open>null\<close>, so no completed call is
  valid, but \<^verbatim>\<open>len(message_content)\<close> raises \<^verbatim>\<open>TypeError\<close> inside the first loop, which
  catches \<^verbatim>\<open>CancelledError\<close> only, and both handlers answer 500.
\<close>

theorem null_content_answers_500:
  "map outcome (create_tasks example_world example_request
      (valid_keys (get_current_api_keys (keys example_world) 1))) = [completion_with JNull]
   \<and> valid_candidate (min_response_length (server example_world)) (completion_with JNull)
       = Inl TypeError
   \<and> response (chat_completions_proxy example_world 1 (Some ''Bearer 123'') False example_request)
       = HTTPException 500 (InternalError TypeError)
   \<and> response (chat_completions_proxy example_world 1 (Some ''Bearer 123'') True example_request)
       = HTTPException 500 (InternalError TypeError)"
  by (simp add: example_authorized proxy_completion_def generate_fake_stream_response_def
      example_keys example_min example_arbitrate_group2 example_tasks_group2
      valid_candidate_null_content Let_def)

section \<open>The grace window\<close>

text \<open>
  Claim C3 says that a window of 15 seconds opens with the first valid candidate and that
  the calls still pending when it closes are cancelled and ignored. The loop over
  \<^verbatim>\<open>as_completed\<close> awaits every task, so no task is left for
  \<^verbatim>\<open>asyncio.wait(remaining_tasks, timeout=15)\<close> (\<open>arbitrate_never_waits\<close>). In the run
  below the first valid candidate arrives after 1 second; the handler still waits for
  the calls completing after 30 and 40 seconds, cancels none, and returns the one that
  arrived after 30 seconds.
\<close>

theorem no_grace_window:
  "map finish (as_completed (create_tasks example_world example_request
      (valid_keys (get_current_api_keys (keys example_world) 0)))) = [1, 2, 30, 40]
   \<and> valid_candidate 3 (completion_with (JStr ''tiny'')) = Inr (Some (example_candidate ''tiny''))
   \<and> arbitrate (min_response_length (server example_world))
        (create_tasks example_world example_request
          (valid_keys (get_current_api_keys (keys example_world) 0)))
       = Inr \<lparr>best_response = Some (example_candidate ''a longer answer''),
              cancelled = [], decided_at = 40\<rparr>"
  by (simp add: example_keys example_min example_tasks_group1 as_completed_def
      arbitrate_never_waits valid_candidate_completion valid_candidate_None bind_exn_def
      example_candidate_def)

section \<open>The rotation alternates\<close>

text \<open>
  Claim C4. In any sequence of successive calls of \<^verbatim>\<open>get_current_api_keys\<close>, whatever the
  configuration loaded for each call and whatever the value \<open>i\<close> of
  \<^verbatim>\<open>current_group_index\<close> before the first one (it is 0 when the module is loaded),
  call number \<open>k\<close> (counted from 0) uses \<^verbatim>\<open>group1\<close> exactly when \<open>k\<close> is even and
  \<open>i = 0\<close>, or \<open>k\<close> is odd and \<open>i \<noteq> 0\<close>; it returns the usable keys of that group;
  and the next call uses the other group.
\<close>

theorem rotation_alternates:
  assumes "k < length cfgs"
  shows "length (selections cfgs i) = length cfgs
         \<and> logged_group (selections cfgs i ! k) = (if (i = 0) = even k then Group1 else Group2)
         \<and> valid_keys (selections cfgs i ! k)
             = filter usable_key
                 (if (i = 0) = even k then group1 (cfgs ! k) else group2 (cfgs ! k))
         \<and> (Suc k < length cfgs \<longrightarrow>
               logged_group (selections cfgs i ! Suc k) \<noteq> logged_group (selections cfgs i ! k))"
proof -
  from selections_nth [OF assms, of i]
  have a: "logged_group (selections cfgs i ! k) = group_at i k"
    and b: "valid_keys (selections cfgs i ! k) = filter usable_key (keys_of (group_at i k) (cfgs ! k))"
    by simp_all
  have c: "Suc k < length cfgs \<longrightarrow>
             logged_group (selections cfgs i ! Suc k) \<noteq> logged_group (selections cfgs i ! k)"
  proof
    assume "Suc k < length cfgs"
    from selections_nth [OF this, of i] a show
      "logged_group (selections cfgs i ! Suc k) \<noteq> logged_group (selections cfgs i ! k)"
      by (simp add: group_at_def)
  qed
  from a b c show ?thesis
    by (simp add: length_selections group_at_def keys_of_def)
qed

theorem rotation_alternates_witness:
  "length (selections [example_keys_a, example_keys_b, example_keys_a] 0) = 3
   \<and> logged_group (selections [example_keys_a, example_keys_b, example_keys_a] 0 ! 0) = Group1
   \<and> logged_group (selections [example_keys_a, example_keys_b, example_keys_a] 0 ! 1) = Group2
   \<and> logged_group (selections [example_keys_a, example_keys_b, example_keys_a] 0 ! 2) = Group1
   \<and> valid_keys (selections [example_keys_a, example_keys_b, example_keys_a] 0 ! 0)
       = [''AIzaSy-key-one'']
   \<and> valid_keys (selections [example_keys_a, example_keys_b, example_keys_a] 0 ! 1)
       = [''AIzaSy-key-six'']"
proof -
  let ?cfgs = "[example_keys_a, example_keys_b, example_keys_a]"
  have k0: "(0::nat) < length ?cfgs" and k1: "(1::nat) < length ?cfgs"
    and k2: "(2::nat) < length ?cfgs" by simp_all
  note r0 = rotation_alternates [OF k0, of 0]
  note r1 = rotation_alternates [OF k1, of 0]
  note r2 = rotation_alternates [OF k2, of 0]
  have usable: "filter usable_key (group1 example_keys_a) = [''AIzaSy-key-one'']"
    "filter usable_key (group2 example_keys_b) = [''AIzaSy-key-six'']"
    by (simp_all add: example_keys_a_def example_keys_b_def usable_key_def)
  from r0 r1 r2 usable show ?thesis
    by (simp del: selections.simps)
qed

section \<open>The emitted stream spells out the winning content\<close>

text \<open>
  Claim C5. For every result object and every content string, the events of
  \<^verbatim>\<open>stream_response_content\<close> are one chunk event per slice of the content, then the
  chunk with the empty delta and finish reason \<^verbatim>\<open>stop\<close>, then the \<^verbatim>\<open>data: [DONE]\<close>
  line; the generator ends without an exception, and the content fields of the events,
  concatenated in the order of emission, are the content.
\<close>

theorem stream_round_trip:
  fixes kvs :: "(string \<times> json) list" and s :: string and now :: int
  defines "rid \<equiv> (case map_of kvs ''id'' of None \<Rightarrow> JStr (''chatcmpl-'' @ py_str now) | Some v \<Rightarrow> v)"
    and "cr \<equiv> (case map_of kvs ''created'' of None \<Rightarrow> JNum now | Some v \<Rightarrow> v)"
    and "mo \<equiv> (case map_of kvs ''model'' of None \<Rightarrow> JStr ''gemini-2.5-flash'' | Some v \<Rightarrow> v)"
  shows "\<exists>texts evs.
           stream_response_content now (JObj kvs) (JStr s) = Inr (evs, None)
           \<and> evs = map (\<lambda>t. Data (chunk_data rid cr mo (JStr t))) texts
                   @ [Data (final_data rid cr mo), Done]
           \<and> concat texts = s
           \<and> concat (map event_content evs) = s
           \<and> event_delta (last (butlast evs)) = Some (JObj [])
           \<and> event_finish_reason (last (butlast evs)) = Some (JStr ''stop'')
           \<and> last evs = Done"
proof -
  let ?cs = "max 1 (length s div 50)"
  let ?texts = "map (\<lambda>i. take ?cs (drop i s)) (range_step 0 (length s) ?cs)"
  let ?evs = "map (\<lambda>t. Data (chunk_data rid cr mo (JStr t))) ?texts
              @ [Data (final_data rid cr mo), Done]"
  have run: "stream_response_content now (JObj kvs) (JStr s) = Inr (?evs, None)"
    by (simp only: stream_response_content_dict_eq generate_stream_string rid_def cr_def mo_def)
  have texts: "concat ?texts = s"
    using concat_slices [of ?cs s 0] by simp
  have contents: "concat (map event_content ?evs) = s"
    using texts
    by (simp only: map_append concat_append concat_event_content)
       (simp add: event_content_final event_content_Done)
  have fin: "last (butlast ?evs) = Data (final_data rid cr mo)"
    by (simp add: butlast_append)
  have "event_delta (Data (final_data rid cr mo)) = Some (JObj [])"
    by (simp add: event_delta_def event_choice_def final_data_def)
  moreover have "event_finish_reason (Data (final_data rid cr mo)) = Some (JStr ''stop'')"
    by (simp add: event_finish_reason_def event_choice_def final_data_def)
  moreover have "last ?evs = Done" by simp
  ultimately show ?thesis
    using run texts contents fin by (intro exI [of _ ?texts] exI [of _ ?evs]) simp
qed


section \<open>One upstream call never raises, and its failures are all None\<close>

text \<open>
  Claim C6 says that every failure of a single upstream call becomes a failure value
  carrying the credential and a diagnostic message, and that every other outcome is a
  completion. In \<^verbatim>\<open>send_single_request\<close> a failure is the value \<^verbatim>\<open>None\<close>, whatever the
  credential and whatever went wrong (the message is only logged): a network error under
  one key and a status 500 under another give the same value. A 200 answer whose body is
  JSON is returned as it is, completion or not.
\<close>

theorem failure_value_is_anonymous:
  "send_single_request example_world ''AIzaSy-key-three'' example_request
     = send_single_request example_world ''AIzaSy-key-zero'' example_request
   \<and> ''AIzaSy-key-three'' \<noteq> ''AIzaSy-key-zero''
   \<and> snd (upstream example_world
            (upstream_request (base_url example_world) (request_timeout (server example_world))
               ''AIzaSy-key-three'' example_request)) = Raises RequestError
   \<and> snd (upstream example_world
            (upstream_request (base_url example_world) (request_timeout (server example_world))
               ''AIzaSy-key-zero'' example_request)) = Replies 500 []
   \<and> send_single_request example_world ''AIzaSy-key-three'' example_request = JNull
   \<and> send_single_request example_world ''AIzaSy-key-six'' example_request
       = JObj [(''error'', JStr ''quota'')]"
  by (simp add: example_send example_send_more example_replies)

text \<open>
  Claim C6 as amended. For every credential and request, \<^verbatim>\<open>send_single_request\<close> returns
  a value and raises nothing: when \<^verbatim>\<open>client.post\<close> raises, when the status is not 2xx,
  and when the body yields no event-stream content and is not JSON, the value is
  \<^verbatim>\<open>None\<close>; any value other than \<^verbatim>\<open>None\<close> is the parsed JSON body of a 2xx answer, or
  the completion assembled from the non-empty content of its event stream.
\<close>

theorem failures_become_None:
  assumes "reply = snd (upstream w (upstream_request (base_url w) (request_timeout (server w))
                                     key request_data))"
  shows "(\<forall>e. reply = Raises e \<longrightarrow> send_single_request w key request_data = JNull)
       \<and> (\<forall>status text. reply = Replies status text \<and> \<not> is_success status
             \<longrightarrow> send_single_request w key request_data = JNull)
       \<and> (\<forall>status text. reply = Replies status text \<and> is_success status
             \<and> (\<forall>c. from_event_stream (json_loads w) (clock w) text \<noteq> Inr (Some c))
             \<and> json_loads w text = None
             \<longrightarrow> send_single_request w key request_data = JNull)
       \<and> (send_single_request w key request_data = JNull
          \<or> (\<exists>status text. reply = Replies status text \<and> is_success status
                \<and> (json_loads w text = Some (send_single_request w key request_data)
                   \<or> (\<exists>st. sublist ''data:'' text
                         \<and> sse_lines (json_loads w)
                              \<lparr>sse_content = [], final_id = JStr [], final_model = JStr [],
                               final_created = JNum (clock w)\<rparr>
                              (split_on (CHR 0x0A) (py_strip text)) = Inr st
                         \<and> sse_content st \<noteq> []
                         \<and> send_single_request w key request_data
                             = sse_completion (clock w) st))))"
proof -
  have val: "send_single_request w key request_data =
     (case reply of
        Raises e \<Rightarrow> JNull
      | Replies status payload \<Rightarrow>
          if \<not> is_success status then JNull
          else (case from_event_stream (json_loads w) (clock w) payload of
                  Inl e \<Rightarrow> JNull
                | Inr (Some completion) \<Rightarrow> completion
                | Inr None \<Rightarrow> (case json_loads w payload of None \<Rightarrow> JNull | Some j \<Rightarrow> j)))"
    unfolding assms by (rule send_single_request_cases)
  have raised: "\<forall>e. reply = Raises e \<longrightarrow> send_single_request w key request_data = JNull"
    by (simp add: val)
  have status: "\<forall>status payload. reply = Replies status payload \<and> \<not> is_success status
                  \<longrightarrow> send_single_request w key request_data = JNull"
    by (simp add: val)
  have unparsable: "\<forall>status payload. reply = Replies status payload \<and> is_success status
                  \<and> (\<forall>c. from_event_stream (json_loads w) (clock w) payload \<noteq> Inr (Some c))
                  \<and> json_loads w payload = None
                  \<longrightarrow> send_single_request w key request_data = JNull"
    by (auto simp: val split: sum.splits option.splits)
  have other: "send_single_request w key request_data = JNull
          \<or> (\<exists>status payload. reply = Replies status payload \<and> is_success status
                \<and> (json_loads w payload = Some (send_single_request w key request_data)
                   \<or> (\<exists>st. sublist ''data:'' payload
                         \<and> sse_lines (json_loads w)
                              \<lparr>sse_content = [], final_id = JStr [], final_model = JStr [],
                               final_created = JNum (clock w)\<rparr>
                              (split_on (CHR 0x0A) (py_strip payload)) = Inr st
                         \<and> sse_content st \<noteq> []
                         \<and> send_single_request w key request_data
                             = sse_completion (clock w) st)))"
  proof (cases reply)
    case (Raises e)
    then show ?thesis by (simp add: val)
  next
    case (Replies status payload)
    show ?thesis
    proof (cases "is_success status")
      case False
      then show ?thesis using Replies by (simp add: val)
    next
      case True
      show ?thesis
      proof (cases "from_event_stream (json_loads w) (clock w) payload")
        case (Inl e)
        then show ?thesis using Replies True by (simp add: val)
      next
        case (Inr assembled)
        show ?thesis
        proof (cases assembled)
          case None
          then show ?thesis
            using Replies True Inr
            by (cases "json_loads w payload") (simp_all add: val)
        next
          case (Some c)
          with Inr have "from_event_stream (json_loads w) (clock w) payload = Inr (Some c)"
            by simp
          from from_event_stream_Some [OF this]
          show ?thesis
            using Replies True Inr Some by (auto simp: val)
        qed
      qed
    qed
  qed
  from raised status unparsable other show ?thesis by (intro conjI)
qed

theorem failures_become_None_witness:
  "send_single_request example_world ''AIzaSy-key-three'' example_request = JNull
   \<and> send_single_request example_world ''AIzaSy-key-zero'' example_request = JNull
   \<and> send_single_request example_world ''AIzaSy-key-seven'' example_request = JNull
   \<and> json_loads example_world ''other''
       = Some (send_single_request example_world ''AIzaSy-key-six'' example_request)"
proof -
  let ?reply = "\<lambda>key. snd (upstream example_world
      (upstream_request (base_url example_world) (request_timeout (server example_world))
         key example_request))"
  have loads: "json_loads example_world ''<html>'' = None"
    "json_loads example_world ''other'' = Some (JObj [(''error'', JStr ''quota'')])"
    by (simp_all add: example_world_def example_loads_def)
  from failures_become_None [of "?reply ''AIzaSy-key-three''" example_world "''AIzaSy-key-three''"
      example_request]
  have a: "send_single_request example_world ''AIzaSy-key-three'' example_request = JNull"
    by (simp add: example_replies)
  from failures_become_None [of "?reply ''AIzaSy-key-zero''" example_world "''AIzaSy-key-zero''"
      example_request]
  have b: "send_single_request example_world ''AIzaSy-key-zero'' example_request = JNull"
    by (simp add: example_replies is_success_def)
  from failures_become_None [of "?reply ''AIzaSy-key-seven''" example_world "''AIzaSy-key-seven''"
      example_request]
  have c: "send_single_request example_world ''AIzaSy-key-seven'' example_request = JNull"
    by (simp add: example_replies is_success_def from_event_stream_def no_data_marker loads)
  from a b c show ?thesis
    by (simp add: loads example_send_more)
qed

section \<open>Requests without the server key\<close>

text \<open>
  Claim C7 says that a request whose bearer token is missing, malformed or different from
  the server key is answered 401 and causes no upstream call. That holds when the header
  is missing, does not start with \<^verbatim>\<open>Bearer \<close>, or when the text between the first and
  the second space is empty or differs from the key (\<open>unauthorized_no_upstream\<close>). But
  the key is read as \<^verbatim>\<open>api_key_header.split(" ")[1]\<close>, which drops everything after a
  second space: with the server key \<^verbatim>\<open>123\<close>, the header \<^verbatim>\<open>Bearer 123 zzz\<close>, whose
  token \<^verbatim>\<open>123 zzz\<close> is not the key, is served, and four upstream calls are made.
\<close>

theorem trailing_words_are_accepted:
  "''123 zzz'' \<noteq> api_key (server example_world)
   \<and> response (chat_completions_proxy example_world 0 (Some ''Bearer 123 zzz'') False
        example_request)
       = JSONResponse (completion_with (JStr ''a longer answer''))
   \<and> map authorization (upstream_calls (chat_completions_proxy example_world 0
        (Some ''Bearer 123 zzz'') False example_request))
       = [''Bearer AIzaSy-key-one'', ''Bearer AIzaSy-key-two'', ''Bearer AIzaSy-key-three'',
          ''Bearer AIzaSy-key-four'']"
  by (simp add: example_trailing_words example_proxy_group1 calls_sent_def upstream_request_def)
     (simp add: example_world_def)

section \<open>Only the allow-list is forwarded\<close>

text \<open>
  Claim C8. For every request object (a dictionary, so its keys are distinct) the JSON
  body given to \<^verbatim>\<open>client.post\<close> holds exactly the items of the request whose names are
  in \<^verbatim>\<open>supported_params\<close>, in their order and with their values; looking up any other
  name in it finds nothing.
\<close>

theorem forwarded_body_is_allow_list:
  assumes "distinct (map fst request_data)"
  shows "body (upstream_request base t key request_data)
           = filter (\<lambda>(name, val). name \<in> set supported_params) request_data
         \<and> (\<forall>name. map_of (body (upstream_request base t key request_data)) name
               = (if name \<in> set supported_params then map_of request_data name else None))"
proof -
  from clean_request_filter [of "[]" request_data] assms
  have eq: "body (upstream_request base t key request_data)
              = filter (\<lambda>(name, val). name \<in> set supported_params) request_data"
    by (simp add: upstream_request_def allowed_eq)
  show ?thesis
    unfolding eq by (simp only: map_of_filter_key) simp
qed

theorem forwarded_body_is_allow_list_witness:
  "distinct (map fst example_request)
   \<and> body (upstream_request ''https://example.invalid'' 120 ''AIzaSy-key-one'' example_request)
       = [(''model'', JStr ''gemini-2.5-flash''),
          (''messages'', JArr [JObj [(''role'', JStr ''user''), (''content'', JStr ''hello'')]]),
          (''temperature'', JNum 1)]"
proof -
  have d: "distinct (map fst example_request)"
    by (simp add: example_request_def)
  have "filter (\<lambda>(name, val). name \<in> set supported_params) example_request
          = [(''model'', JStr ''gemini-2.5-flash''),
             (''messages'', JArr [JObj [(''role'', JStr ''user''), (''content'', JStr ''hello'')]]),
             (''temperature'', JNum 1)]"
    by (simp add: example_request_def supported_params_def)
  with forwarded_body_is_allow_list [OF d, of "''https://example.invalid''" 120 "''AIzaSy-key-one''"] d
  show ?thesis
    by simp
qed

section \<open>The monitor's buffers stay within their capacity\<close>

text \<open>
  Claim C9. After any sequence of monitor operations (\<^verbatim>\<open>record_request\<close>,
  \<^verbatim>\<open>add_log\<close>, \<^verbatim>\<open>reset_stats\<close>, \<^verbatim>\<open>get_stats\<close> and the two log readers), each ending by
  returning or by blocking on the lock, started on a new monitor or on any monitor within
  its capacities, \<^verbatim>\<open>recent_logs\<close> holds at most \<^verbatim>\<open>max_log_entries\<close> entries,
  \<^verbatim>\<open>error_details\<close> and \<^verbatim>\<open>response_times\<close> at most 100 each, and the capacity itself
  is unchanged. Appending to a buffer that is full drops its oldest entry and adds the new
  one at the end, and appending to one with room only adds: so for a deque in general, so
  for \<^verbatim>\<open>recent_logs\<close> when \<^verbatim>\<open>add_log\<close> runs on a free lock, and so for
  \<^verbatim>\<open>response_times\<close> and \<^verbatim>\<open>error_details\<close> when \<^verbatim>\<open>record_request\<close> runs on a free
  lock and reaches the append (the response time unless the request is counted as
  truncated, the error entry when the status is not 2xx and an error message is given).
\<close>

theorem monitor_buffers_bounded:
  "within_capacity (run_ops (new_monitor capacity t0) ops)
   \<and> max_log_entries (run_ops (new_monitor capacity t0) ops) = capacity
   \<and> (within_capacity m \<longrightarrow>
         within_capacity (run_ops m ops) \<and> max_log_entries (run_ops m ops) = max_log_entries m)
   \<and> (length xs = n \<and> 0 < n \<longrightarrow> deque_append n xs x = tl xs @ [x])
   \<and> (length xs < n \<longrightarrow> deque_append n xs x = xs @ [x])
   \<and> (\<not> locked m \<and> length (recent_logs m) = max_log_entries m \<and> 0 < max_log_entries m \<longrightarrow>
         recent_logs (state_after (add_log m now level msg details))
           = tl (recent_logs m)
             @ [\<lparr>log_timestamp = now, log_level = level, log_message = msg,
                  log_details = (case details of None \<Rightarrow> [] | Some d \<Rightarrow> d)\<rparr>])
   \<and> (\<not> locked m \<and> length (recent_logs m) < max_log_entries m \<longrightarrow>
         recent_logs (state_after (add_log m now level msg details))
           = recent_logs m
             @ [\<lparr>log_timestamp = now, log_level = level, log_message = msg,
                  log_details = (case details of None \<Rightarrow> [] | Some d \<Rightarrow> d)\<rparr>])
   \<and> (\<not> locked m
        \<and> \<not> (200 \<le> status_code \<and> status_code < 300 \<and> 0 < response_length
               \<and> response_length < min_length)
        \<and> length (response_times m) = 100 \<longrightarrow>
         response_times (state_after (record_request m now key status_code response_time
            response_length min_length error_msg))
           = tl (response_times m) @ [response_time])
   \<and> (\<not> locked m
        \<and> \<not> (200 \<le> status_code \<and> status_code < 300 \<and> 0 < response_length
               \<and> response_length < min_length)
        \<and> length (response_times m) < 100 \<longrightarrow>
         response_times (state_after (record_request m now key status_code response_time
            response_length min_length error_msg))
           = response_times m @ [response_time])
   \<and> (\<not> locked m \<and> \<not> (200 \<le> status_code \<and> status_code < 300)
        \<and> error_msg = Some e \<and> e \<noteq> [] \<and> length (error_details m) = 100 \<longrightarrow>
         error_details (state_after (record_request m now key status_code response_time
            response_length min_length error_msg))
           = tl (error_details m)
             @ [\<lparr>err_timestamp = now, err_api_key = key_prefix key,
                  err_status_code = status_code, err_error = e,
                  err_response_time = response_time\<rparr>])
   \<and> (\<not> locked m \<and> \<not> (200 \<le> status_code \<and> status_code < 300)
        \<and> error_msg = Some e \<and> e \<noteq> [] \<and> length (error_details m) < 100 \<longrightarrow>
         error_details (state_after (record_request m now key status_code response_time
            response_length min_length error_msg))
           = error_details m
             @ [\<lparr>err_timestamp = now, err_api_key = key_prefix key,
                  err_status_code = status_code, err_error = e,
                  err_response_time = response_time\<rparr>])"
proof -
  from run_ops_capacity [OF new_monitor_capacity, of capacity t0 ops]
  have a1: "within_capacity (run_ops (new_monitor capacity t0) ops)"
    and a2: "max_log_entries (run_ops (new_monitor capacity t0) ops) = capacity"
    by (simp_all add: same_capacity_def new_monitor_def)
  have b: "within_capacity m \<longrightarrow>
             within_capacity (run_ops m ops) \<and> max_log_entries (run_ops m ops) = max_log_entries m"
    using run_ops_capacity [of m ops] by (simp add: same_capacity_def)
  have c: "length xs = n \<and> 0 < n \<longrightarrow> deque_append n xs x = tl xs @ [x]"
    by (simp add: deque_append_full)
  have d: "length xs < n \<longrightarrow> deque_append n xs x = xs @ [x]"
    by (simp add: deque_append_room)
  have e1: "\<not> locked m \<and> length (recent_logs m) = max_log_entries m \<and> 0 < max_log_entries m \<longrightarrow>
         recent_logs (state_after (add_log m now level msg details))
           = tl (recent_logs m)
             @ [\<lparr>log_timestamp = now, log_level = level, log_message = msg,
                  log_details = (case details of None \<Rightarrow> [] | Some d \<Rightarrow> d)\<rparr>]"
    by (simp add: add_log_evicts)
  have e2: "\<not> locked m \<and> length (recent_logs m) < max_log_entries m \<longrightarrow>
         recent_logs (state_after (add_log m now level msg details))
           = recent_logs m
             @ [\<lparr>log_timestamp = now, log_level = level, log_message = msg,
                  log_details = (case details of None \<Rightarrow> [] | Some d \<Rightarrow> d)\<rparr>]"
    by (simp add: add_log_def with_lock_def Let_def deque_append_room)
  have f1: "\<not> locked m
        \<and> \<not> (200 \<le> status_code \<and> status_code < 300 \<and> 0 < response_length
               \<and> response_length < min_length)
        \<and> length (response_times m) = 100 \<longrightarrow>
         response_times (state_after (record_request m now key status_code response_time
            response_length min_length error_msg))
           = tl (response_times m) @ [response_time]"
    by (simp add: record_request_response_times deque_append_full)
  have f2: "\<not> locked m
        \<and> \<not> (200 \<le> status_code \<and> status_code < 300 \<and> 0 < response_length
               \<and> response_length < min_length)
        \<and> length (response_times m) < 100 \<longrightarrow>
         response_times (state_after (record_request m now key status_code response_time
            response_length min_length error_msg))
           = response_times m @ [response_time]"
    by (simp add: record_request_response_times deque_append_room)
  have g1: "\<not> locked m \<and> \<not> (200 \<le> status_code \<and> status_code < 300)
        \<and> error_msg = Some e \<and> e \<noteq> [] \<and> length (error_details m) = 100 \<longrightarrow>
         error_details (state_after (record_request m now key status_code response_time
            response_length min_length error_msg))
           = tl (error_details m)
             @ [\<lparr>err_timestamp = now, err_api_key = key_prefix key,
                  err_status_code = status_code, err_error = e,
                  err_response_time = response_time\<rparr>]"
    by (simp add: record_request_error_details deque_append_full)
  have g2: "\<not> locked m \<and> \<not> (200 \<le> status_code \<and> status_code < 300)
        \<and> error_msg = Some e \<and> e \<noteq> [] \<and> length (error_details m) < 100 \<longrightarrow>
         error_details (state_after (record_request m now key status_code response_time
            response_length min_length error_msg))
           = error_details m
             @ [\<lparr>err_timestamp = now, err_api_key = key_prefix key,
                  err_status_code = status_code, err_error = e,
                  err_response_time = response_time\<rparr>]"
    by (simp add: record_request_error_details deque_append_room)
  from a1 a2 b c d e1 e2 f1 f2 g1 g2 show ?thesis by (intro conjI)
qed

theorem monitor_buffers_bounded_witness:
  "within_capacity (new_monitor 2 0)
   \<and> within_capacity (run_ops (new_monitor 2 0) example_ops)
   \<and> map log_message (recent_logs (run_ops (new_monitor 2 0) example_ops))
       = [Message ''b'', Message ''c'']
   \<and> deque_append 2 [1, 2] (3 :: nat) = [2, 3]
   \<and> deque_append 2 [1] (2 :: nat) = [1, 2]
   \<and> length (response_times example_full_monitor) = 100
   \<and> response_times (state_after (record_request example_full_monitor 7 ''AIzaSy-key-one'' 502
         (3 / 2) 0 300 (Some ''bad gateway'')))
       = tl (response_times example_full_monitor) @ [3 / 2]
   \<and> length (error_details example_full_monitor) = 100
   \<and> error_details (state_after (record_request example_full_monitor 7 ''AIzaSy-key-one'' 502
         (3 / 2) 0 300 (Some ''bad gateway'')))
       = tl (error_details example_full_monitor)
         @ [\<lparr>err_timestamp = 7, err_api_key = ''AIzaSy-k...'', err_status_code = 502,
              err_error = ''bad gateway'', err_response_time = 3 / 2\<rparr>]
   \<and> response_times (state_after (record_request (new_monitor 2 0) 7 ''AIzaSy-key-one'' 502
         (3 / 2) 0 300 (Some ''bad gateway''))) = [3 / 2]
   \<and> error_details (state_after (record_request (new_monitor 2 0) 7 ''AIzaSy-key-one'' 502
         (3 / 2) 0 300 (Some ''bad gateway'')))
       = [\<lparr>err_timestamp = 7, err_api_key = ''AIzaSy-k...'', err_status_code = 502,
            err_error = ''bad gateway'', err_response_time = 3 / 2\<rparr>]
   \<and> recent_logs (state_after (add_log (new_monitor 2 0) 1 ''INFO'' (Message ''a'') None))
       = [\<lparr>log_timestamp = 1, log_level = ''INFO'', log_message = Message ''a'',
            log_details = []\<rparr>]"
proof -
  have wc: "within_capacity (new_monitor 2 0)"
    by (simp add: new_monitor_def within_capacity_def)
  from monitor_buffers_bounded [where capacity = 2 and ?t0.0 = 0 and ops = example_ops
      and m = "new_monitor 2 0" and xs = "[1, 2 :: nat]" and n = 2 and x = 3
      and now = 7 and key = "''AIzaSy-key-one''" and status_code = 502
      and response_time = "3 / 2" and response_length = 0 and min_length = 300
      and error_msg = "Some ''bad gateway''" and e = "''bad gateway''"
      and level = "''INFO''" and msg = "Message ''a''" and details = None]
  have a: "within_capacity (run_ops (new_monitor 2 0) example_ops)"
    and b: "deque_append 2 [1, 2] (3 :: nat) = [2, 3]"
    and c: "response_times (state_after (record_request (new_monitor 2 0) 7 ''AIzaSy-key-one'' 502
         (3 / 2) 0 300 (Some ''bad gateway''))) = [3 / 2]"
    and d: "error_details (state_after (record_request (new_monitor 2 0) 7 ''AIzaSy-key-one'' 502
         (3 / 2) 0 300 (Some ''bad gateway'')))
       = [\<lparr>err_timestamp = 7, err_api_key = ''AIzaSy-k...'', err_status_code = 502,
            err_error = ''bad gateway'', err_response_time = 3 / 2\<rparr>]"
    using wc by (simp_all add: new_monitor_empty key_prefix_def)
  from monitor_buffers_bounded [where capacity = 2 and ?t0.0 = 0 and ops = example_ops
      and m = "new_monitor 2 0" and xs = "[1 :: nat]" and n = 2 and x = 2
      and now = 1 and key = "''AIzaSy-key-one''" and status_code = 502
      and response_time = "3 / 2" and response_length = 0 and min_length = 300
      and error_msg = "Some ''bad gateway''" and e = "''bad gateway''"
      and level = "''INFO''" and msg = "Message ''a''" and details = None]
  have e: "deque_append 2 [1] (2 :: nat) = [1, 2]"
    and f: "recent_logs (state_after (add_log (new_monitor 2 0) 1 ''INFO'' (Message ''a'') None))
       = [\<lparr>log_timestamp = 1, log_level = ''INFO'', log_message = Message ''a'',
            log_details = []\<rparr>]"
    by (simp_all add: new_monitor_empty)
  from monitor_buffers_bounded [where capacity = 2 and ?t0.0 = 0 and ops = example_ops
      and m = example_full_monitor and xs = "[1 :: nat]" and n = 2 and x = 2
      and now = 7 and key = "''AIzaSy-key-one''" and status_code = 502
      and response_time = "3 / 2" and response_length = 0 and min_length = 300
      and error_msg = "Some ''bad gateway''" and e = "''bad gateway''"
      and level = "''INFO''" and msg = "Message ''a''" and details = None]
  have g: "response_times (state_after (record_request example_full_monitor 7 ''AIzaSy-key-one''
         502 (3 / 2) 0 300 (Some ''bad gateway'')))
       = tl (response_times example_full_monitor) @ [3 / 2]"
    and h: "error_details (state_after (record_request example_full_monitor 7 ''AIzaSy-key-one''
         502 (3 / 2) 0 300 (Some ''bad gateway'')))
       = tl (error_details example_full_monitor)
         @ [\<lparr>err_timestamp = 7, err_api_key = ''AIzaSy-k...'', err_status_code = 502,
              err_error = ''bad gateway'', err_response_time = 3 / 2\<rparr>]"
    by (simp_all add: example_full key_prefix_def)
  from wc a b c d e f g h show ?thesis
    by (simp add: example_run example_full)
qed

section \<open>Recording a request never returns\<close>

text \<open>
  Claim C10 says that every call of \<^verbatim>\<open>record_request\<close> returns and releases the lock.
  \<^verbatim>\<open>record_request\<close> awaits \<^verbatim>\<open>add_log\<close> inside its \<^verbatim>\<open>async with self._lock\<close> block,
  and \<^verbatim>\<open>add_log\<close> acquires the same lock, which is not reentrant: no call returns
  (\<open>record_request_never_returns\<close>). On a new monitor a successful request is counted,
  its response time is stored, and the coroutine then waits for ever with the lock held
  and without its log entry, although \<^verbatim>\<open>add_log\<close> called on its own returns.
\<close>

theorem record_request_blocks:
  "record_request (new_monitor 1000 0) 7 ''AIzaSy-key-one'' 200 (1 / 2) 500 300 None
     = Blocked ((new_monitor 1000 0)
         \<lparr>total_requests := 1, successful_requests := 1, status_codes := [(200, 1)],
          api_key_usage := [(''AIzaSy-key-one'', 1)], response_times := [1 / 2],
          locked := True\<rparr>)
   \<and> add_log (new_monitor 1000 0) 7 ''INFO'' (RequestCompleted 200) None
     = Returned () ((new_monitor 1000 0)
         \<lparr>recent_logs := [\<lparr>log_timestamp = 7, log_level = ''INFO'',
                            log_message = RequestCompleted 200, log_details = []\<rparr>]\<rparr>)"
  by (simp add: record_request_def with_lock_def add_log_def Let_def new_monitor_def bump_def
      deque_append_def)

end
